theory Spec2Isabelle
  imports Complex_Main "HOL-Library.Word"
begin

text \<open>
  A model of the two workers of the repository: the workflow worker (\<open>src/index.ts\<close>:
  invitations, the verification of a contact's request, and the countdown workflow
  \<open>SleepWorkflow\<close>) and the token worker (\<open>src/unnamed/part_000\<close>: trigger tokens issued and
  checked by mail). A handler is a function from the trace of effects so far to the trace after
  it; what the platform answers is a parameter.
\<close>

section \<open>JavaScript values used by the workers\<close>

subsection \<open>Numbers\<close>

text \<open>
  A JavaScript number is a double. The model keeps the three special values of IEEE 754
  that the code can meet (\<open>NaN\<close> and the two infinities) and takes every finite value
  as an exact real: rounding and overflow of finite arithmetic are not modelled, and the
  two zeros are one value (both are falsy and compare equal in the code below).
\<close>

datatype js_number = NaN | NInf | Fin real | PInf

text \<open>The relational operator \<open>a > b\<close>: false as soon as one side is \<open>NaN\<close>.\<close>

fun js_gt :: "js_number \<Rightarrow> js_number \<Rightarrow> bool" where
  "js_gt NaN b = False"
| "js_gt a NaN = False"
| "js_gt NInf b = False"
| "js_gt a PInf = False"
| "js_gt PInf b = True"
| "js_gt a NInf = True"
| "js_gt (Fin x) (Fin y) = (y < x)"

text \<open>\<open>isNaN\<close>, and the truthiness test that \<open>||\<close> applies to its left operand.\<close>

fun isNaN :: "js_number \<Rightarrow> bool" where
  "isNaN NaN = True"
| "isNaN a = False"

fun truthy :: "js_number \<Rightarrow> bool" where
  "truthy NaN = False"
| "truthy (Fin x) = (x \<noteq> 0)"
| "truthy a = True"

definition js_or :: "js_number \<Rightarrow> js_number \<Rightarrow> js_number" where
  "js_or a b = (if truthy a then a else b)"

fun js_add :: "js_number \<Rightarrow> js_number \<Rightarrow> js_number" where
  "js_add NaN b = NaN"
| "js_add a NaN = NaN"
| "js_add (Fin x) (Fin y) = Fin (x + y)"
| "js_add PInf NInf = NaN"
| "js_add NInf PInf = NaN"
| "js_add (Fin x) b = b"
| "js_add a b = a"

fun js_mul :: "js_number \<Rightarrow> js_number \<Rightarrow> js_number" where
  "js_mul NaN b = NaN"
| "js_mul a NaN = NaN"
| "js_mul (Fin x) (Fin y) = Fin (x * y)"
| "js_mul a b =
     (if a = Fin 0 \<or> b = Fin 0 then NaN
      else if js_gt (Fin 0) a = js_gt (Fin 0) b then PInf else NInf)"

text \<open>\<open>Math.max\<close> of two arguments: \<open>NaN\<close> if either is.\<close>

fun js_max :: "js_number \<Rightarrow> js_number \<Rightarrow> js_number" where
  "js_max NaN b = NaN"
| "js_max a NaN = NaN"
| "js_max a b = (if js_gt b a then b else a)"

subsection \<open>Strings\<close>

text \<open>
  Strings are byte strings (\<open>char list\<close>); the addresses, hexadecimal tokens and
  templates of the worker are ASCII. The helpers follow \<open>String.prototype\<close>.
\<close>

definition startsWith :: "string \<Rightarrow> string \<Rightarrow> bool" where
  "startsWith s p = (take (length p) s = p)"

fun includes_str :: "string \<Rightarrow> string \<Rightarrow> bool" where
  "includes_str [] p = (p = [])"
| "includes_str (c # cs) p = (startsWith (c # cs) p \<or> includes_str cs p)"

fun indexOf :: "string \<Rightarrow> string \<Rightarrow> nat option" where
  "indexOf [] p = (if p = [] then Some 0 else None)"
| "indexOf (c # cs) p =
     (if startsWith (c # cs) p then Some 0 else map_option Suc (indexOf cs p))"

text \<open>
  The replacement text of \<open>replace\<close> and \<open>replaceAll\<close> with a string pattern:
  \<open>$$\<close>, \<open>$&\<close>, \<open>$`\<close> and \<open>$'\<close> are expanded, everything else is literal.
\<close>

fun getSubstitution :: "string \<Rightarrow> string \<Rightarrow> string \<Rightarrow> string \<Rightarrow> string" where
  "getSubstitution m bef aft [] = []"
| "getSubstitution m bef aft [c] = [c]"
| "getSubstitution m bef aft (c # d # r) =
     (if c = CHR ''$'' \<and> d = CHR ''$'' then CHR ''$'' # getSubstitution m bef aft r
      else if c = CHR ''$'' \<and> d = CHR ''&'' then m @ getSubstitution m bef aft r
      else if c = CHR ''$'' \<and> d = CHR 0x60 then bef @ getSubstitution m bef aft r
      else if c = CHR ''$'' \<and> d = CHR 0x27 then aft @ getSubstitution m bef aft r
      else c # getSubstitution m bef aft (d # r))"

definition replace :: "string \<Rightarrow> string \<Rightarrow> string \<Rightarrow> string" where
  "replace s p r =
     (case indexOf s p of
        None \<Rightarrow> s
      | Some i \<Rightarrow>
          take i s @ getSubstitution p (take i s) (drop (i + length p) s) r
            @ drop (i + length p) s)"

text \<open>
  \<open>replaceAll\<close> with a non-empty pattern: matches are found left to right and do not
  overlap; \<open>bef\<close> is the part of the string already passed, \<open>k\<close> the number of
  characters of the current match still to skip.
\<close>

fun replaceAll_from :: "string \<Rightarrow> string \<Rightarrow> string \<Rightarrow> nat \<Rightarrow> string \<Rightarrow> string" where
  "replaceAll_from p r bef k [] = []"
| "replaceAll_from p r bef k (c # cs) =
     (if 0 < k then replaceAll_from p r (bef @ [c]) (k - 1) cs
      else if startsWith (c # cs) p
      then getSubstitution p bef (drop (length p) (c # cs)) r
             @ replaceAll_from p r (bef @ [c]) (length p - 1) cs
      else c # replaceAll_from p r (bef @ [c]) 0 cs)"

definition replaceAll :: "string \<Rightarrow> string \<Rightarrow> string \<Rightarrow> string" where
  "replaceAll s p r = replaceAll_from p r [] 0 s"

subsection \<open>\<open>parseFloat\<close>\<close>

text \<open>
  The builtin \<open>parseFloat\<close>: leading white space is dropped, then the longest prefix that
  is a \<open>StrDecimalLiteral\<close> is read (an optional sign, then \<open>Infinity\<close> or decimal digits
  with an optional fraction and an optional exponent); no such prefix gives \<open>NaN\<close>.
  Only the ASCII white space is recognised here.
\<close>

definition isDigit :: "char \<Rightarrow> bool" where
  "isDigit c = (48 \<le> (of_char c :: nat) \<and> (of_char c :: nat) \<le> 57)"

definition isWhiteSpace :: "char \<Rightarrow> bool" where
  "isWhiteSpace c = ((of_char c :: nat) \<in> {9, 10, 11, 12, 13, 32})"

definition digitsValue :: "string \<Rightarrow> nat" where
  "digitsValue ds = foldl (\<lambda>a c. 10 * a + ((of_char c :: nat) - 48)) 0 ds"

text \<open>The exponent part: \<open>e\<close> or \<open>E\<close>, an optional sign, at least one digit; else none.\<close>

definition exponentPart :: "string \<Rightarrow> int" where
  "exponentPart s =
     (case s of
        [] \<Rightarrow> 0
      | c # r \<Rightarrow>
          if c = CHR ''e'' \<or> c = CHR ''E'' then
            (case r of
               [] \<Rightarrow> 0
             | d # r' \<Rightarrow>
                 if d = CHR ''-'' then - int (digitsValue (takeWhile isDigit r'))
                 else if d = CHR ''+'' then int (digitsValue (takeWhile isDigit r'))
                 else int (digitsValue (takeWhile isDigit r)))
          else 0)"

definition scale10 :: "real \<Rightarrow> int \<Rightarrow> real" where
  "scale10 x e = (if 0 \<le> e then x * 10 ^ nat e else x / 10 ^ nat (- e))"

definition unsignedDecimal :: "string \<Rightarrow> real option" where
  "unsignedDecimal s =
     (let ip = takeWhile isDigit s;
          r1 = dropWhile isDigit s;
          dot = (r1 \<noteq> [] \<and> hd r1 = CHR ''.'');
          fp = (if dot then takeWhile isDigit (tl r1) else []);
          r2 = (if dot then dropWhile isDigit (tl r1) else r1)
      in if ip = [] \<and> fp = [] then None
         else Some (scale10 (real (digitsValue (ip @ fp)))
                      (exponentPart r2 - int (length fp))))"

definition parseFloat :: "string \<Rightarrow> js_number" where
  "parseFloat str =
     (let t = dropWhile isWhiteSpace str;
          neg = (t \<noteq> [] \<and> hd t = CHR ''-'');
          u = (if t \<noteq> [] \<and> (hd t = CHR ''-'' \<or> hd t = CHR ''+'') then tl t else t)
      in if startsWith u ''Infinity'' then (if neg then NInf else PInf)
         else (case unsignedDecimal u of
                 None \<Rightarrow> NaN
               | Some v \<Rightarrow> Fin (if neg then - v else v)))"

text \<open>
  An environment variable that is not configured is \<open>undefined\<close>; a builtin that
  expects a string converts it to the string \<open>undefined\<close>.
\<close>

definition toString_opt :: "string option \<Rightarrow> string" where
  "toString_opt v = (case v of None \<Rightarrow> ''undefined'' | Some s \<Rightarrow> s)"

subsection \<open>Hexadecimal text, \<open>parseInt\<close> and typed arrays\<close>

definition hexDigit :: "nat \<Rightarrow> char" where
  "hexDigit d = (if d < 10 then char_of (48 + d) else char_of (87 + d))"

text \<open>\<open>x.toString(16)\<close> of a non-negative integer, and \<open>padStart(2, "0")\<close>.\<close>

fun toString16 :: "nat \<Rightarrow> string" where
  "toString16 n =
     (if n < 16 then [hexDigit n] else toString16 (n div 16) @ [hexDigit (n mod 16)])"

declare toString16.simps [simp del]

definition padStart2 :: "string \<Rightarrow> string" where
  "padStart2 s = replicate (2 - length s) (CHR ''0'') @ s"

text \<open>The value of a digit in radix 16, upper or lower case.\<close>

definition hexValue :: "char \<Rightarrow> nat option" where
  "hexValue c =
     (let n = (of_char c :: nat)
      in if 48 \<le> n \<and> n \<le> 57 then Some (n - 48)
         else if 97 \<le> n \<and> n \<le> 102 then Some (n - 87)
         else if 65 \<le> n \<and> n \<le> 70 then Some (n - 55)
         else None)"

definition hexDigitsValue :: "string \<Rightarrow> nat" where
  "hexDigitsValue ds = foldl (\<lambda>a c. 16 * a + the (hexValue c)) 0 ds"

text \<open>
  \<open>parseInt(s, 16)\<close>: white space, a sign and a \<open>0x\<close> prefix are skipped, then the
  longest run of digits is read; \<open>None\<close> stands for \<open>NaN\<close> (no digit).
\<close>

definition parseInt16 :: "string \<Rightarrow> int option" where
  "parseInt16 s =
     (let t = dropWhile isWhiteSpace s;
          neg = (t \<noteq> [] \<and> hd t = CHR ''-'');
          u = (if t \<noteq> [] \<and> (hd t = CHR ''-'' \<or> hd t = CHR ''+'') then tl t else t);
          v = (if startsWith u ''0x'' \<or> startsWith u ''0X'' then drop 2 u else u);
          ds = takeWhile (\<lambda>c. hexValue c \<noteq> None) v
      in if ds = [] then None
         else Some (if neg then - int (hexDigitsValue ds) else int (hexDigitsValue ds)))"

text \<open>Storing into a \<open>Uint8Array\<close>: \<open>NaN\<close> becomes 0, an integer is taken modulo 256.\<close>

type_synonym byte = "8 word"

definition toUint8 :: "int option \<Rightarrow> byte" where
  "toUint8 v = (case v of None \<Rightarrow> 0 | Some i \<Rightarrow> word_of_int i)"

text \<open>\<open>TextEncoder.encode\<close>: the bytes of the string.\<close>

definition textEncode :: "string \<Rightarrow> byte list" where
  "textEncode s = map of_char s"

subsection \<open>\<open>JSON.stringify\<close> of a string\<close>

definition quoteJSONChar :: "char \<Rightarrow> string" where
  "quoteJSONChar c =
     (let n = (of_char c :: nat)
      in if n = 0x22 then [CHR 0x5C, CHR 0x22]
         else if n = 0x5C then [CHR 0x5C, CHR 0x5C]
         else if n = 8 then [CHR 0x5C, CHR ''b'']
         else if n = 12 then [CHR 0x5C, CHR ''f'']
         else if n = 10 then [CHR 0x5C, CHR ''n'']
         else if n = 13 then [CHR 0x5C, CHR ''r'']
         else if n = 9 then [CHR 0x5C, CHR ''t'']
         else if n < 32 then [CHR 0x5C, CHR ''u'', CHR ''0'', CHR ''0''] @ padStart2 (toString16 n)
         else [c])"

definition quoteJSONString :: "string \<Rightarrow> string" where
  "quoteJSONString s = [CHR 0x22] @ concat (map quoteJSONChar s) @ [CHR 0x22]"

subsection \<open>Other string helpers\<close>

definition toLowerCase :: "string \<Rightarrow> string" where
  "toLowerCase s =
     map (\<lambda>c. if 65 \<le> (of_char c :: nat) \<and> (of_char c :: nat) \<le> 90
               then char_of ((of_char c :: nat) + 32) else c) s"

text \<open>\<open>s.split(sep)\<close> for a separator of one character.\<close>

fun split :: "char \<Rightarrow> string \<Rightarrow> string list" where
  "split sep [] = [[]]"
| "split sep (c # cs) =
     (if c = sep then [] # split sep cs
      else (case split sep cs of [] \<Rightarrow> [[c]] | w # ws \<Rightarrow> (c # w) # ws))"

text \<open>An optional string in a condition: \<open>undefined\<close> and the empty string are falsy.\<close>

definition truthy_str :: "string option \<Rightarrow> bool" where
  "truthy_str v = (case v of None \<Rightarrow> False | Some s \<Rightarrow> s \<noteq> [])"

subsection \<open>Errors, mail and the observable effects\<close>

text \<open>An \<open>Error\<close> object, and \<open>Error.prototype.toString\<close>.\<close>

record js_error =
  err_name :: string
  err_message :: string

definition error_toString :: "js_error \<Rightarrow> string" where
  "error_toString e =
     (if err_name e = [] then err_message e
      else if err_message e = [] then err_name e
      else err_name e @ '': '' @ err_message e)"

text \<open>
  A message under construction with \<open>createMimeMessage\<close> (its setters fill the fields),
  and the \<open>EmailMessage\<close> that carries it: envelope sender, envelope recipient, content.
  The serialisation \<open>asRaw\<close> of the mail library is not modelled: the content stays
  structured.
\<close>

record mime_message =
  mime_in_reply_to :: "string option"
  mime_sender_name :: string
  mime_sender_addr :: string
  mime_recipient :: string
  mime_subject :: string
  mime_parts :: "(string \<times> string) list"

definition createMimeMessage :: mime_message where
  "createMimeMessage =
     \<lparr>mime_in_reply_to = None, mime_sender_name = [], mime_sender_addr = [],
      mime_recipient = [], mime_subject = [], mime_parts = []\<rparr>"

definition addMessage :: "string \<Rightarrow> string \<Rightarrow> mime_message \<Rightarrow> mime_message" where
  "addMessage contentType content m = m\<lparr>mime_parts := mime_parts m @ [(contentType, content)]\<rparr>"

record email_message =
  em_from :: string
  em_to :: string
  em_raw :: mime_message

text \<open>The parameters of a workflow instance (\<open>event.payload\<close>).\<close>

record workflow_params =
  wf_id :: string
  wf_identity :: string
  wf_domain :: "string option"

text \<open>
  What a run does to the outside world, in order: a call of a mail binding's \<open>send\<close>
  with its outcome (\<open>None\<close>: accepted, \<open>Some e\<close>: rejected with \<open>e\<close>), a
  \<open>step.sleep\<close> with its duration in milliseconds, a line on \<open>console.error\<close>,
  a workflow instance created, a \<open>message.reply\<close> with its outcome.
\<close>

datatype event =
    Send email_message "js_error option"
  | Sleep js_number
  | ConsoleError string
  | Create workflow_params
  | Reply email_message "js_error option"

type_synonym trace = "event list"

text \<open>
  The platform: everything the worker calls and does not define. The mail transport and
  the random source may answer differently at each call, so they read the trace so far.
  A \<open>send\<close> or a \<open>reply\<close> may be rejected; the other calls into the runtime and the
  libraries (importing the key, building a message, creating a workflow instance) are taken
  to succeed.
\<close>

record platform =
  numberToString :: "js_number \<Rightarrow> string"
  hmacSha256 :: "byte list \<Rightarrow> byte list \<Rightarrow> byte list"
  randomUUID :: "trace \<Rightarrow> string"
  transport :: "trace \<Rightarrow> email_message \<Rightarrow> js_error option"
  replyTransport :: "trace \<Rightarrow> email_message \<Rightarrow> js_error option"

type_synonym 'a effect = "trace \<Rightarrow> (js_error + 'a) \<times> trace"

definition send :: "platform \<Rightarrow> email_message \<Rightarrow> unit effect" where
  "send pf m t =
     (case transport pf t m of
        None \<Rightarrow> (Inr (), t @ [Send m None])
      | Some e \<Rightarrow> (Inl e, t @ [Send m (Some e)]))"

definition reply :: "platform \<Rightarrow> email_message \<Rightarrow> unit effect" where
  "reply pf m t =
     (case replyTransport pf t m of
        None \<Rightarrow> (Inr (), t @ [Reply m None])
      | Some e \<Rightarrow> (Inl e, t @ [Reply m (Some e)]))"

definition console_error :: "string \<Rightarrow> trace \<Rightarrow> trace" where
  "console_error line t = t @ [ConsoleError line]"

text \<open>The workflow instances that a trace created, in order.\<close>

fun created :: "trace \<Rightarrow> workflow_params list" where
  "created [] = []"
| "created (Create p # t) = p # created t"
| "created (ev # t) = created t"

subsection \<open>The workflow engine\<close>

text \<open>
  \<open>step.do\<close> with a retry configuration runs the body, and runs it again after a
  failure until it succeeds or \<open>limit\<close> retries are used up; then the last error is
  thrown to the caller. The waiting between attempts (\<open>delay\<close>, \<open>backoff\<close>) is real time
  and leaves no trace.
\<close>

datatype backoff = Constant | Linear | Exponential

record step_config =
  retries_limit :: nat
  retries_delay :: nat
  retries_backoff :: backoff

fun step_attempts :: "nat \<Rightarrow> 'a effect \<Rightarrow> 'a effect" where
  "step_attempts 0 body t = body t"
| "step_attempts (Suc n) body t =
     (case body t of
        (Inr v, t') \<Rightarrow> (Inr v, t')
      | (Inl e, t') \<Rightarrow> step_attempts n body t')"

definition step_do :: "step_config \<Rightarrow> 'a effect \<Rightarrow> 'a effect" where
  "step_do cfg body = step_attempts (retries_limit cfg) body"

definition step_sleep :: "js_number \<Rightarrow> trace \<Rightarrow> trace" where
  "step_sleep ms t = t @ [Sleep ms]"

text \<open>How the engine leaves an instance whose \<open>run\<close> returned, or threw.\<close>

datatype instance_status = Completed | Failed js_error

section \<open>The workflow worker (\<open>src/index.ts\<close>)\<close>

record env =
  SENDER_EMAIL :: "string option"
  OWNER_EMAIL :: string
  SECRET :: string
  VAULT_CONTENT :: string
  NOT_BEFORE_DAYS :: "string option"

definition DEFAULT_NOT_BEFORE_DAYS :: js_number where
  "DEFAULT_NOT_BEFORE_DAYS = Fin 7"

definition NOTIFY_TEMPLATE :: string where
  "NOTIFY_TEMPLATE =
     [CHR 10] @ ''{{identity}}'' @ [CHR 10, CHR 10]
     @ ''Your Inactive Email Manager instance received a token request from this email address.'' @ [CHR 10]
     @ ''This means this contact believes you are no longer able to handle this email.'' @ [CHR 10]
     @ ''If this is not the case, please immediately stop the following workflow to invalidate'' @ [CHR 10]
     @ ''the request:'' @ [CHR 10, CHR 10]
     @ ''{{workflowId}}'' @ [CHR 10, CHR 10]
     @ ''Otherwise, this token will be valid in {{notBefore}} days'' @ [CHR 10]
     @ ''and the contact will be able to access the SECRET you have stored in your instance.'' @ [CHR 10, CHR 10]
     @ ''Inactive Email Manager'' @ [CHR 10]"

definition parseDays :: "string \<Rightarrow> js_number" where
  "parseDays daysStr =
     (let days = parseFloat daysStr
      in if isNaN days then Fin 0
         else if js_gt days (Fin 365) then Fin 0
         else days)"

text \<open>\<open>env.SENDER_EMAIL || `noreply@${domain}`\<close>: an unset and an empty variable are falsy.\<close>

definition sender_of :: "env \<Rightarrow> string option \<Rightarrow> string" where
  "sender_of e domain =
     (case SENDER_EMAIL e of
        None \<Rightarrow> ''noreply@'' @ toString_opt domain
      | Some s \<Rightarrow> if s = [] then ''noreply@'' @ toString_opt domain else s)"

definition step_retries :: step_config where
  "step_retries = \<lparr>retries_limit = 2, retries_delay = 180000, retries_backoff = Exponential\<rparr>"

text \<open>The message that the body of the step \<open>notify\<close> builds.\<close>

definition notify_message :: "platform \<Rightarrow> env \<Rightarrow> workflow_params \<Rightarrow> email_message" where
  "notify_message pf e p =
     (let sender = sender_of e (wf_domain p);
          ownerEmail = OWNER_EMAIL e;
          notBeforeDays = js_or (parseDays (toString_opt (NOT_BEFORE_DAYS e))) DEFAULT_NOT_BEFORE_DAYS;
          body = replace (replace (replace NOTIFY_TEMPLATE ''{{workflowId}}'' (wf_id p))
                            ''{{identity}}'' (wf_identity p))
                   ''{{notBefore}}'' (numberToString pf notBeforeDays);
          mime = addMessage ''text/plain'' body
                   (createMimeMessage
                      \<lparr>mime_sender_name := ''Inactive Email Manager'', mime_sender_addr := sender,
                       mime_recipient := ownerEmail,
                       mime_subject := ''Inactive Email Manager Token Request Notification''\<rparr>)
      in \<lparr>em_from = sender, em_to = ownerEmail, em_raw = mime\<rparr>)"

text \<open>The message that the body of the step \<open>send\<close> builds: the release of the secret.\<close>

definition release_message :: "env \<Rightarrow> workflow_params \<Rightarrow> email_message" where
  "release_message e p =
     (let sender = sender_of e (wf_domain p);
          identity = wf_identity p;
          msg = addMessage ''text/plain''
                  (''Here is the secret message you requested:'' @ [CHR 10, CHR 10] @ VAULT_CONTENT e)
                  (createMimeMessage
                     \<lparr>mime_sender_name := ''Inactive Email Manager'', mime_sender_addr := sender,
                      mime_recipient := identity,
                      mime_subject := ''Secret Message from Your Contact''\<rparr>)
      in \<lparr>em_from = sender, em_to = identity, em_raw = msg\<rparr>)"

text \<open>The duration handed to \<open>step.sleep\<close>, in milliseconds.\<close>

definition sleep_duration :: "env \<Rightarrow> js_number" where
  "sleep_duration e =
     js_mul (js_or (parseDays (toString_opt (NOT_BEFORE_DAYS e))) DEFAULT_NOT_BEFORE_DAYS)
       (Fin (24 * 60 * 60 * 1000))"

text \<open>
  \<open>SleepWorkflow.run\<close>: an error thrown by the step \<open>notify\<close> leaves \<open>run\<close> at once; an
  error thrown by the step \<open>send\<close> is caught and its message logged.
\<close>

definition run :: "platform \<Rightarrow> env \<Rightarrow> workflow_params \<Rightarrow> trace \<Rightarrow> instance_status \<times> trace" where
  "run pf e p t =
     (case step_do step_retries (send pf (notify_message pf e p)) t of
        (Inl err, t1) \<Rightarrow> (Failed err, t1)
      | (Inr u, t1) \<Rightarrow>
          (let t2 = step_sleep (sleep_duration e) t1
           in case step_do step_retries (send pf (release_message e p)) t2 of
                (Inl err, t3) \<Rightarrow> (Completed, console_error (err_message err) t3)
              | (Inr u', t3) \<Rightarrow> (Completed, t3)))"

subsection \<open>Invitations\<close>

definition INVITATION_TEMPLATE :: string where
  "INVITATION_TEMPLATE =
     [CHR 10] @ ''To {{contact}},'' @ [CHR 10, CHR 10]
     @ ''Your contact {{owner}} has invited you to join Inactive Email Manager.'' @ [CHR 10]
     @ ''When you are sure they can no longer handle their email account, you can use the link'' @ [CHR 10]
     @ ''at the end of this email to create a message requesting access to their account data.'' @ [CHR 10]
     @ ''Note:'' @ [CHR 10]
     @ ''Please keep your email account secure to prevent malicious use by others.'' @ [CHR 10]
     @ ''Please do not use this service while your contact can still access their email account,'' @ [CHR 10]
     @ ''otherwise your account will be banned.'' @ [CHR 10, CHR 10]
     @ ''{{link}}'' @ [CHR 10, CHR 10]
     @ ''Inactive Email Manager'' @ [CHR 10]"

text \<open>
  \<open>JSON.stringify({contact, owner, usage: "invitation"})\<close>: the keys in the order of the
  object literal, which is the alphabetical one.
\<close>

definition invitation_payload :: "string \<Rightarrow> string \<Rightarrow> string" where
  \<open>invitation_payload contact owner =
     ''{"contact":'' @ quoteJSONString contact
     @ '',"owner":'' @ quoteJSONString owner
     @ '',"usage":"invitation"}''\<close>

text \<open>\<open>crypto.subtle.sign("HMAC", key, data)\<close> with the key imported from \<open>env.SECRET\<close>.\<close>

definition invitation_signature :: "platform \<Rightarrow> env \<Rightarrow> string \<Rightarrow> string \<Rightarrow> byte list" where
  "invitation_signature pf e owner contact =
     hmacSha256 pf (textEncode (SECRET e)) (textEncode (invitation_payload contact owner))"

definition invitation_hex :: "platform \<Rightarrow> env \<Rightarrow> string \<Rightarrow> string \<Rightarrow> string" where
  "invitation_hex pf e owner contact =
     concat (map (\<lambda>x. padStart2 (toString16 (unat x))) (invitation_signature pf e owner contact))"

definition invitation_message :: "platform \<Rightarrow> env \<Rightarrow> string \<Rightarrow> string \<Rightarrow> string \<Rightarrow> email_message" where
  "invitation_message pf e botAddr owner contact =
     (let hex = invitation_hex pf e owner contact;
          invitation =
            replace (replaceAll (replaceAll INVITATION_TEMPLATE ''{{contact}}'' contact)
                       ''{{owner}}'' owner)
              ''{{link}}'' (''mailto:'' @ botAddr @ ''?subject=Data%20Access%20Request&body=iem-'' @ hex);
          msg = addMessage ''text/plain'' invitation
                  (createMimeMessage
                     \<lparr>mime_sender_name := ''Inactive Email Manager'', mime_sender_addr := botAddr,
                      mime_recipient := contact,
                      mime_subject := ''Inactive Email Manager Invitation from '' @ owner\<rparr>)
      in \<lparr>em_from = botAddr, em_to = contact, em_raw = msg\<rparr>)"

definition sendInvitationEmail :: "platform \<Rightarrow> env \<Rightarrow> string \<Rightarrow> string \<Rightarrow> string \<Rightarrow> unit effect" where
  "sendInvitationEmail pf e botAddr owner contact = send pf (invitation_message pf e botAddr owner contact)"

subsection \<open>Inbound mail\<close>

text \<open>
  An inbound message as the handlers read it: the envelope, the \<open>Message-ID\<close> header, and
  the fields of the parsed mail that are used (each may be missing).
\<close>

record inbound =
  in_from :: string
  in_to :: string
  in_message_id :: "string option"
  in_inReplyTo :: "string option"
  in_subject :: "string option"
  in_text :: "string option"

text \<open>\<open>message.to.split("@")[1]\<close>: \<open>undefined\<close> when the address has no \<open>@\<close>.\<close>

definition domain_of :: "string \<Rightarrow> string option" where
  "domain_of addr = (case split (CHR ''@'') addr of a # d # r \<Rightarrow> Some d | _ \<Rightarrow> None)"

text \<open>
  The matches of \<open>/[\w.-]+@[\w.-]+/g\<close>, left to right. Both runs are greedy, and the
  character after the first run has to be the \<open>@\<close>, which is outside the class, so a
  match at a position is the longest run, the \<open>@\<close>, and the longest run again.
\<close>

definition isWordChar :: "char \<Rightarrow> bool" where
  "isWordChar c =
     (let n = (of_char c :: nat)
      in (48 \<le> n \<and> n \<le> 57) \<or> (65 \<le> n \<and> n \<le> 90) \<or> (97 \<le> n \<and> n \<le> 122) \<or> n = 95)"

definition isAddressChar :: "char \<Rightarrow> bool" where
  "isAddressChar c = (isWordChar c \<or> c = CHR ''.'' \<or> c = CHR ''-'')"

definition contactAt :: "string \<Rightarrow> string option" where
  "contactAt s =
     (let l = takeWhile isAddressChar s;
          r = dropWhile isAddressChar s;
          d = takeWhile isAddressChar (drop 1 r)
      in if l \<noteq> [] \<and> startsWith r ''@'' \<and> d \<noteq> [] then Some (l @ ''@'' @ d) else None)"

fun contactMatches_from :: "nat \<Rightarrow> string \<Rightarrow> string list" where
  "contactMatches_from k [] = []"
| "contactMatches_from k (c # cs) =
     (if 0 < k then contactMatches_from (k - 1) cs
      else (case contactAt (c # cs) of
              None \<Rightarrow> contactMatches_from 0 cs
            | Some m \<Rightarrow> m # contactMatches_from (length m - 1) cs))"

definition contactMatches :: "string \<Rightarrow> string list" where
  "contactMatches text = contactMatches_from 0 text"

text \<open>\<open>subject.match(/(invite|invitation)/i)\<close>.\<close>

definition isInvitationSubject :: "string \<Rightarrow> bool" where
  "isInvitationSubject subject =
     (includes_str (toLowerCase subject) ''invite'' \<or> includes_str (toLowerCase subject) ''invitation'')"

subsection \<open>\<open>handleOwnerEmail\<close>\<close>

text \<open>
  \<open>Promise.allSettled\<close> over the sends to the contacts. Each send starts \<open>index\<close> seconds
  after the call; the model runs them in that order, one after the other, and keeps the
  outcome of each.
\<close>

datatype settled = Fulfilled | Rejected js_error

fun allSettled_invitations ::
  "platform \<Rightarrow> env \<Rightarrow> string \<Rightarrow> string \<Rightarrow> string list \<Rightarrow> trace \<Rightarrow> settled list \<times> trace" where
  "allSettled_invitations pf e botAddr owner [] t = ([], t)"
| "allSettled_invitations pf e botAddr owner (contact # contacts) t =
     (case sendInvitationEmail pf e botAddr owner contact t of
        (r, t1) \<Rightarrow>
          (case allSettled_invitations pf e botAddr owner contacts t1 of
             (rs, t2) \<Rightarrow> ((case r of Inr u \<Rightarrow> Fulfilled | Inl err \<Rightarrow> Rejected err) # rs, t2)))"

text \<open>The report: one line for each result, with the contact at the same index.\<close>

definition resultsReport :: "string list \<Rightarrow> settled list \<Rightarrow> string" where
  "resultsReport contacts results =
     concat (map (\<lambda>(contact, r).
                    contact @ '': ''
                    @ (case r of Fulfilled \<Rightarrow> ''success'' | Rejected err \<Rightarrow> error_toString err)
                    @ [CHR 10])
               (zip contacts results))"

text \<open>
  The reply to the owner: the message prepared at the start of the handler, with the subject
  and the report added; \<open>warned\<close> is the same message after the second \<open>addMessage\<close>.
\<close>

definition status_reply :: "inbound \<Rightarrow> string \<Rightarrow> email_message" where
  "status_reply message report =
     \<lparr>em_from = in_to message, em_to = in_from message,
      em_raw = addMessage ''text/plain''
                 (''We've tried to send out the invitation emails to the contacts you provided.''
                  @ [CHR 10] @ ''Email status:'' @ [CHR 10] @ report
                  @ [CHR 10] @ ''Inactive Email Manager'')
                 (createMimeMessage
                    \<lparr>mime_in_reply_to := in_message_id message,
                     mime_sender_name := ''Inactive Email Manager'',
                     mime_sender_addr := in_to message,
                     mime_recipient := in_from message,
                     mime_subject := ''Re: '' @ toString_opt (in_subject message)\<rparr>)\<rparr>"

definition warned :: "email_message \<Rightarrow> email_message" where
  "warned m =
     m\<lparr>em_raw := addMessage ''text/plain''
                    ''Warning: The email address is not verified. You must verify the email first.''
                    (em_raw m)\<rparr>"

definition handleOwnerEmail :: "platform \<Rightarrow> env \<Rightarrow> inbound \<Rightarrow> trace \<Rightarrow> trace" where
  "handleOwnerEmail pf e message t =
     (if truthy_str (in_inReplyTo message) then console_error ''Cannot reply to a reply'' t
      else if (case in_subject message of None \<Rightarrow> False | Some subject \<Rightarrow> isInvitationSubject subject)
      then
        (case in_text message of
           None \<Rightarrow> console_error ''No contact email found in the email body'' t
         | Some text \<Rightarrow>
             (let contacts = contactMatches text
              in case allSettled_invitations pf e (in_to message) (in_from message) contacts t of
                   (results, t1) \<Rightarrow>
                     (let replyMessage = status_reply message (resultsReport contacts results)
                      in case send pf replyMessage t1 of
                           (Inr u, t2) \<Rightarrow> t2
                         | (Inl err, t2) \<Rightarrow>
                             if includes_str (err_message err) ''verified'' then
                               (case reply pf (warned replyMessage) t2 of
                                  (Inr u, t3) \<Rightarrow> t3
                                | (Inl err2, t3) \<Rightarrow> console_error (err_message err2) t3)
                             else console_error (err_message err) t2)))
      else t)"

subsection \<open>\<open>handleContactEmail\<close>\<close>

definition SCEDULED_TEMPLATE :: string where
  "SCEDULED_TEMPLATE =
     [CHR 10] @ ''Your request has been received. However, to confirm that {{owner}}'s email is no longer'' @ [CHR 10]
     @ ''in use, we have sent a confirmation email to him. If he does not respond within'' @ [CHR 10]
     @ ''{{notBefore}} days, we will send you an email containing a secret message he left.'' @ [CHR 10]
     @ ''A new workflow has been created for this request. You can check the status with this ID:'' @ [CHR 10]
     @ ''{{workflowId}}'' @ [CHR 10]
     @ ''We understand your urgency, but please be patient.'' @ [CHR 10, CHR 10]
     @ ''Inactive Email Manager'' @ [CHR 10]"

text \<open>
  \<open>decodeHex\<close>: the loop reads two characters at a time (one at the end of a string of odd
  length) and stores the parsed value at the next index of the array.
\<close>

fun decodeHex :: "string \<Rightarrow> byte list" where
  "decodeHex [] = []"
| "decodeHex [a] = [toUint8 (parseInt16 [a])]"
| "decodeHex (a # b # str) = toUint8 (parseInt16 [a, b]) # decodeHex str"

text \<open>
  The first group of the first match of \<open>/iem-([0-9a-f]{12,})/\<close>: the leftmost \<open>iem-\<close>
  that at least twelve digits follow, with all the digits that follow it.
\<close>

definition isLowerHex :: "char \<Rightarrow> bool" where
  "isLowerHex c =
     (let n = (of_char c :: nat) in (48 \<le> n \<and> n \<le> 57) \<or> (97 \<le> n \<and> n \<le> 102))"

fun tokenMatch :: "string \<Rightarrow> string option" where
  "tokenMatch [] = None"
| "tokenMatch (c # cs) =
     (let digits = takeWhile isLowerHex (drop 4 (c # cs))
      in if startsWith (c # cs) ''iem-'' \<and> 12 \<le> length digits then Some digits
         else tokenMatch cs)"

text \<open>\<open>crypto.subtle.verify("HMAC", key, signature, data)\<close>: the MAC of the data is
  computed and compared with the signature.\<close>

definition verify_invitation :: "platform \<Rightarrow> env \<Rightarrow> string \<Rightarrow> string \<Rightarrow> bool" where
  "verify_invitation pf e sender token =
     (hmacSha256 pf (textEncode (SECRET e))
        (textEncode (invitation_payload sender (OWNER_EMAIL e)))
      = decodeHex token)"

text \<open>\<open>email.text?.match(/iem-([0-9a-f]{12,})/)\<close> and its first group.\<close>

definition submitted_token :: "inbound \<Rightarrow> string option" where
  "submitted_token message =
     (case in_text message of None \<Rightarrow> None | Some text \<Rightarrow> tokenMatch text)"

definition handleContactEmail :: "platform \<Rightarrow> env \<Rightarrow> inbound \<Rightarrow> trace \<Rightarrow> trace" where
  "handleContactEmail pf e message t =
     (if truthy_str (in_inReplyTo message) then t
      else
        (let msg = createMimeMessage
                     \<lparr>mime_in_reply_to := in_message_id message,
                      mime_sender_name := ''Inactive Email Manager'',
                      mime_sender_addr := in_to message,
                      mime_recipient := in_from message,
                      mime_subject := ''Re: '' @ toString_opt (in_subject message)\<rparr>
         in case submitted_token message of
              None \<Rightarrow> console_error ''No token found in the email body'' t
            | Some token \<Rightarrow>
                if \<not> verify_invitation pf e (in_from message) token
                then console_error ''Invalid token signature'' t
                else
                  (let domain = domain_of (in_to message);
                       workflowId = randomUUID pf t;
                       t1 = t @ [Create \<lparr>wf_id = workflowId, wf_identity = in_from message,
                                         wf_domain = domain\<rparr>];
                       content = replace (replace (replace SCEDULED_TEMPLATE ''{{owner}}'' (OWNER_EMAIL e))
                                            ''{{workflowId}}'' workflowId)
                                   ''{{notBefore}}''
                                   (numberToString pf
                                      (js_or (parseDays (toString_opt (NOT_BEFORE_DAYS e)))
                                         DEFAULT_NOT_BEFORE_DAYS));
                       replyMessage = \<lparr>em_from = in_to message, em_to = in_from message,
                                       em_raw = addMessage ''text/plain'' content msg\<rparr>
                   in case reply pf replyMessage t1 of
                        (Inr u, t2) \<Rightarrow> t2
                      | (Inl err, t2) \<Rightarrow> console_error (err_message err) t2)))"

text \<open>The entry point: mail from the owner goes to one handler, all other mail to the other.\<close>

definition email :: "platform \<Rightarrow> env \<Rightarrow> inbound \<Rightarrow> trace \<Rightarrow> trace" where
  "email pf e message t =
     (if in_from message = OWNER_EMAIL e then handleOwnerEmail pf e message t
      else handleContactEmail pf e message t)"

section \<open>The token worker (\<open>src/unnamed/part_000\<close>)\<close>

text \<open>
  \<open>createToken\<close> and the \<open>email\<close> handler. The \<open>fetch\<close> handler, which serves the page and
  calls \<open>createToken\<close> for the identity \<open>anonymous\<close>, and the line that \<open>email\<close> writes with
  \<open>console.log\<close> are left out.
\<close>

record vault_env =
  V_SENDER_EMAIL :: "string option"
  V_OWNER_EMAIL :: string
  V_SECRET :: string
  V_VAULT_CONTENT :: string
  V_NOT_BEFORE_DAYS :: "string option"
  V_EXPIRATION_DAYS :: "string option"
  V_CONTACT_WHITELIST :: "string option"

text \<open>The claims of a token: the object that \<open>createToken\<close> hands to \<open>sign\<close>.\<close>

record jwt_payload =
  jwt_identity :: string
  jwt_nbf :: js_number
  jwt_exp :: js_number

text \<open>
  What this worker calls and does not define: the clock, the formatting of numbers and
  dates, the two mail bindings, and the token library (\<open>sign\<close>, \<open>verify\<close> with
  \<open>throwError\<close>, \<open>decode\<close>) over tokens of type \<open>'tok\<close>. \<open>verify\<close> reads the clock,
  and either throws or returns a value that the caller does not look at.
\<close>

record 'tok vault_platform =
  vp_numberToString :: "js_number \<Rightarrow> string"
  dateNow :: "trace \<Rightarrow> int"
  toUTCString :: "js_number \<Rightarrow> string"
  ownerTransport :: "trace \<Rightarrow> email_message \<Rightarrow> js_error option"
  vp_replyTransport :: "trace \<Rightarrow> email_message \<Rightarrow> js_error option"
  jwt_sign :: "jwt_payload \<Rightarrow> string \<Rightarrow> 'tok"
  jwt_verify :: "int \<Rightarrow> 'tok \<Rightarrow> string \<Rightarrow> js_error + bool"
  jwt_decode :: "'tok \<Rightarrow> jwt_payload option"

definition owner_send :: "'tok vault_platform \<Rightarrow> email_message \<Rightarrow> unit effect" where
  "owner_send vp m t =
     (case ownerTransport vp t m of
        None \<Rightarrow> (Inr (), t @ [Send m None])
      | Some e \<Rightarrow> (Inl e, t @ [Send m (Some e)]))"


definition VAULT_NOTIFY_TEMPLATE :: string where
  "VAULT_NOTIFY_TEMPLATE =
     [CHR 10] @ ''{{identity}}'' @ [CHR 10, CHR 10]
     @ ''Your Afterlife Vault instance received a token request from this email address.'' @ [CHR 10]
     @ ''This means this contact believes you are no longer able to handle this email.'' @ [CHR 10]
     @ ''If this is not the case, please immediately modify your Afterlife Vault secret'' @ [CHR 10]
     @ ''to invalidate the token. Otherwise, this token will be valid in {{notBefore}} days'' @ [CHR 10]
     @ ''and the contact will be able to access the SECRET you have stored in your instance.'' @ [CHR 10, CHR 10]
     @ ''Afterlife Vault'' @ [CHR 10]"

definition parseDays_vault :: "string \<Rightarrow> js_number" where
  "parseDays_vault daysStr =
     (let days = parseFloat daysStr
      in if isNaN days then Fin 0
         else if js_gt days (Fin 3650) then Fin 0
         else days)"

subsection \<open>\<open>createToken\<close>\<close>

definition notBeforeDays_of :: "vault_env \<Rightarrow> js_number" where
  "notBeforeDays_of e = js_or (parseDays_vault (toString_opt (V_NOT_BEFORE_DAYS e))) (Fin 3)"

definition expirationDays_of :: "vault_env \<Rightarrow> js_number" where
  "expirationDays_of e =
     js_max (js_or (parseDays_vault (toString_opt (V_EXPIRATION_DAYS e))) (Fin 7))
       (js_add (notBeforeDays_of e) (Fin (3 / 100)))"

definition vault_sender_of :: "vault_env \<Rightarrow> string option \<Rightarrow> string" where
  "vault_sender_of e domain =
     (case V_SENDER_EMAIL e of
        None \<Rightarrow> ''noreply@'' @ toString_opt domain
      | Some s \<Rightarrow> if s = [] then ''noreply@'' @ toString_opt domain else s)"

definition vault_notify_message ::
  "'tok vault_platform \<Rightarrow> vault_env \<Rightarrow> string \<Rightarrow> string option \<Rightarrow> email_message" where
  "vault_notify_message vp e identity domain =
     (let sender = vault_sender_of e domain;
          ownerEmail = V_OWNER_EMAIL e;
          body = replace (replace VAULT_NOTIFY_TEMPLATE ''{{identity}}'' identity)
                   ''{{notBefore}}'' (vp_numberToString vp (notBeforeDays_of e));
          mime = addMessage ''text/plain'' body
                   (createMimeMessage
                      \<lparr>mime_sender_name := ''Afterlife Vault'', mime_sender_addr := sender,
                       mime_recipient := ownerEmail,
                       mime_subject := ''Afterlife Vault Token Request Notification''\<rparr>)
      in \<lparr>em_from = sender, em_to = ownerEmail, em_raw = mime\<rparr>)"

text \<open>
  The claims signed at the instant \<open>now\<close> (milliseconds, as \<open>Date.now()\<close> gives it; the
  two readings in the object literal happen without anything in between).
\<close>

definition token_payload :: "vault_env \<Rightarrow> string \<Rightarrow> int \<Rightarrow> jwt_payload" where
  "token_payload e identity now =
     \<lparr>jwt_identity = identity,
      jwt_nbf = js_add (Fin (real_of_int (now div 1000)))
                  (js_mul (js_mul (js_mul (notBeforeDays_of e) (Fin 24)) (Fin 60)) (Fin 60)),
      jwt_exp = js_add (Fin (real_of_int (now div 1000)))
                  (js_mul (js_mul (js_mul (expirationDays_of e) (Fin 24)) (Fin 60)) (Fin 60))\<rparr>"

text \<open>\<open>Response.json(body, {status})\<close>.\<close>

datatype response = Response_json nat "(string \<times> string) list"

definition createToken ::
  "'tok vault_platform \<Rightarrow> vault_env \<Rightarrow> string \<Rightarrow> string option \<Rightarrow> trace
     \<Rightarrow> (response + 'tok) \<times> trace" where
  "createToken vp e identity domain t =
     (case owner_send vp (vault_notify_message vp e identity domain) t of
        (Inl err, t1) \<Rightarrow> (Inl (Response_json 500 [(''error'', err_message err)]), t1)
      | (Inr u, t1) \<Rightarrow>
          (Inr (jwt_sign vp (token_payload e identity (dateNow vp t1)) (V_SECRET e)), t1))"

subsection \<open>The \<open>email\<close> handler\<close>









subsection \<open>The token service of the specification\<close>


datatype verify_error = InvalidSignature | Malformed | NotYetValid js_number | Expired




section \<open>Sample configurations\<close>

text \<open>
  Concrete platforms, environments and messages, on which the properties below are
  exercised.
\<close>

definition sample_error :: js_error where
  "sample_error = \<lparr>err_name = ''Error'', err_message = ''rejected''\<rparr>"

definition accepts_all :: "trace \<Rightarrow> email_message \<Rightarrow> js_error option" where
  "accepts_all t m = None"

definition rejects_all :: "trace \<Rightarrow> email_message \<Rightarrow> js_error option" where
  "rejects_all t m = Some sample_error"

definition rejects_to :: "string \<Rightarrow> trace \<Rightarrow> email_message \<Rightarrow> js_error option" where
  "rejects_to addr t m = (if em_to m = addr then Some sample_error else None)"

definition toy_mac :: "byte list \<Rightarrow> byte list \<Rightarrow> byte list" where
  "toy_mac key data = of_nat (length data) # replicate 31 0"

definition sample_platform :: "(trace \<Rightarrow> email_message \<Rightarrow> js_error option) \<Rightarrow> platform" where
  "sample_platform tr =
     \<lparr>numberToString = (\<lambda>n. ''7''), hmacSha256 = toy_mac,
      randomUUID = (\<lambda>t. ''00000000-0000-4000-8000-000000000000''),
      transport = tr, replyTransport = accepts_all\<rparr>"

definition sample_env :: env where
  "sample_env =
     \<lparr>SENDER_EMAIL = None, OWNER_EMAIL = ''owner@example.org'', SECRET = ''secret'',
      VAULT_CONTENT = ''the vault'', NOT_BEFORE_DAYS = None\<rparr>"

definition sample_params :: workflow_params where
  "sample_params =
     \<lparr>wf_id = ''wf-1'', wf_identity = ''carol@example.net'', wf_domain = Some ''example.org''\<rparr>"

definition sample_request :: "string \<Rightarrow> string option \<Rightarrow> inbound" where
  "sample_request sender body =
     \<lparr>in_from = sender, in_to = ''vault@example.org'', in_message_id = Some ''<1@example.net>'',
      in_inReplyTo = None, in_subject = Some ''invite'', in_text = body\<rparr>"

definition sample_vault_platform ::
  "(jwt_payload \<Rightarrow> string \<Rightarrow> 'tok) \<Rightarrow> (int \<Rightarrow> 'tok \<Rightarrow> string \<Rightarrow> js_error + bool)
     \<Rightarrow> ('tok \<Rightarrow> jwt_payload option) \<Rightarrow> (trace \<Rightarrow> email_message \<Rightarrow> js_error option)
     \<Rightarrow> 'tok vault_platform" where
  "sample_vault_platform signer verifier decoder tr =
     \<lparr>vp_numberToString = (\<lambda>n. ''3''), dateNow = (\<lambda>t. 1700000000123),
      toUTCString = (\<lambda>n. ''Wed, 15 Nov 2023 22:13:20 GMT''),
      ownerTransport = tr, vp_replyTransport = accepts_all,
      jwt_sign = signer, jwt_verify = verifier, jwt_decode = decoder\<rparr>"

definition sample_vault_env :: "string option \<Rightarrow> string option \<Rightarrow> vault_env" where
  "sample_vault_env notBefore expiration =
     \<lparr>V_SENDER_EMAIL = None, V_OWNER_EMAIL = ''owner@example.org'', V_SECRET = ''secret'',
      V_VAULT_CONTENT = ''the vault'', V_NOT_BEFORE_DAYS = notBefore,
      V_EXPIRATION_DAYS = expiration, V_CONTACT_WHITELIST = None\<rparr>"

text \<open>A token library that hands the claims back unsigned, to look at what is signed.\<close>

definition claims_platform :: "jwt_payload vault_platform" where
  "claims_platform =
     sample_vault_platform (\<lambda>payload secret. payload) (\<lambda>now token secret. Inr True) Some accepts_all"




section \<open>The countdown workflow\<close>

subsection \<open>Steps and retries\<close>

lemma send_rejected:
  "transport pf t m = Some err \<Longrightarrow> send pf m t = (Inl err, t @ [Send m (Some err)])"
  by (simp add: send_def)

lemma send_accepted:
  "transport pf t m = None \<Longrightarrow> send pf m t = (Inr (), t @ [Send m None])"
  by (simp add: send_def)

lemma send_result:
  "send pf m t = ((case transport pf t m of None \<Rightarrow> Inr () | Some err \<Rightarrow> Inl err),
                  t @ [Send m (transport pf t m)])"
  by (simp add: send_def split: option.splits)


lemma step_do_three_rejections:
  assumes "transport pf t m = Some e1"
    and "transport pf (t @ [Send m (Some e1)]) m = Some e2"
    and "transport pf (t @ [Send m (Some e1), Send m (Some e2)]) m = Some e3"
  shows "step_do step_retries (send pf m) t
           = (Inl e3, t @ [Send m (Some e1), Send m (Some e2), Send m (Some e3)])"
  using assms
  by (simp add: step_do_def step_retries_def numeral_2_eq_2 send_rejected)

lemma step_do_always_rejected:
  assumes "\<forall>h. transport pf (t @ h) m \<noteq> None"
  shows "\<exists>e1 e2 e3. step_do step_retries (send pf m) t
           = (Inl e3, t @ [Send m (Some e1), Send m (Some e2), Send m (Some e3)])"
proof -
  from assms[rule_format, of "[]"] obtain e1 where a1: "transport pf t m = Some e1" by auto
  from assms[rule_format, of "[Send m (Some e1)]"]
  obtain e2 where a2: "transport pf (t @ [Send m (Some e1)]) m = Some e2" by auto
  from assms[rule_format, of "[Send m (Some e1), Send m (Some e2)]"]
  obtain e3 where a3: "transport pf (t @ [Send m (Some e1), Send m (Some e2)]) m = Some e3" by auto
  from step_do_three_rejections[OF a1 a2 a3] show ?thesis by blast
qed

lemma step_do_accepted:
  "transport pf t m = None \<Longrightarrow> step_do cfg (send pf m) t = (Inr (), t @ [Send m None])"
  by (cases "retries_limit cfg") (simp_all add: step_do_def send_def)



lemma notify_not_release: "notify_message pf e p \<noteq> release_message e p"
  by (simp add: notify_message_def release_message_def Let_def createMimeMessage_def addMessage_def)

lemma em_to_notify: "em_to (notify_message pf e p) = OWNER_EMAIL e"
  by (simp add: notify_message_def Let_def)

lemma em_to_release: "em_to (release_message e p) = wf_identity p"
  by (simp add: release_message_def Let_def)

subsection \<open>Exhausted retries\<close>

text \<open>
  Claim C1. When the transport rejects the owner notification at every attempt, the step
  \<open>notify\<close> uses its first attempt and its two retries and then throws: the run ends
  \<open>Failed\<close> with the error of the third attempt, and the trace grows by exactly these
  three rejected sends of the notification. No \<open>step.sleep\<close> and no send of the release
  message happens (the release message is never the notification).
\<close>

theorem notify_exhausted_fails:
  assumes "\<forall>h. transport pf (t @ h) (notify_message pf e p) \<noteq> None"
  shows "\<exists>e1 e2 e3. run pf e p t =
           (Failed e3, t @ [Send (notify_message pf e p) (Some e1),
                            Send (notify_message pf e p) (Some e2),
                            Send (notify_message pf e p) (Some e3)])
         \<and> notify_message pf e p \<noteq> release_message e p"
proof -
  from step_do_always_rejected[OF assms] obtain e1 e2 e3 where
    "step_do step_retries (send pf (notify_message pf e p)) t
       = (Inl e3, t @ [Send (notify_message pf e p) (Some e1),
                       Send (notify_message pf e p) (Some e2),
                       Send (notify_message pf e p) (Some e3)])" by blast
  then have "run pf e p t =
           (Failed e3, t @ [Send (notify_message pf e p) (Some e1),
                            Send (notify_message pf e p) (Some e2),
                            Send (notify_message pf e p) (Some e3)])"
    by (simp add: run_def)
  with notify_not_release show ?thesis by blast
qed

theorem notify_exhausted_fails_witness:
  "fst (run (sample_platform rejects_all) sample_env sample_params []) \<noteq> Completed
   \<and> length (snd (run (sample_platform rejects_all) sample_env sample_params [])) = 3"
proof -
  have h: "\<forall>h. transport (sample_platform rejects_all) ([] @ h)
             (notify_message (sample_platform rejects_all) sample_env sample_params) \<noteq> None"
    by (simp add: sample_platform_def rejects_all_def)
  from notify_exhausted_fails[OF h] show ?thesis by auto
qed

text \<open>
  Claim C2. When the notification went out and the transport then rejects the release message
  at every attempt, the step \<open>send\<close> throws after its three attempts, the error is caught
  and its message logged on \<open>console.error\<close>, and the run ends \<open>Completed\<close>: for every
  payload, environment and platform.
\<close>

theorem release_exhausted_completes:
  assumes notified: "step_do step_retries (send pf (notify_message pf e p)) t = (Inr (), t1)"
    and rejected: "\<forall>h. transport pf (t1 @ [Sleep (sleep_duration e)] @ h) (release_message e p) \<noteq> None"
  shows "\<exists>e1 e2 e3. run pf e p t =
           (Completed, t1 @ [Sleep (sleep_duration e),
                             Send (release_message e p) (Some e1),
                             Send (release_message e p) (Some e2),
                             Send (release_message e p) (Some e3),
                             ConsoleError (err_message e3)])"
proof -
  from rejected have "\<forall>h. transport pf ((t1 @ [Sleep (sleep_duration e)]) @ h) (release_message e p) \<noteq> None"
    by simp
  from step_do_always_rejected[OF this] obtain e1 e2 e3 where
    "step_do step_retries (send pf (release_message e p)) (t1 @ [Sleep (sleep_duration e)])
       = (Inl e3, (t1 @ [Sleep (sleep_duration e)]) @ [Send (release_message e p) (Some e1),
                       Send (release_message e p) (Some e2),
                       Send (release_message e p) (Some e3)])" by blast
  with notified have "run pf e p t =
           (Completed, t1 @ [Sleep (sleep_duration e),
                             Send (release_message e p) (Some e1),
                             Send (release_message e p) (Some e2),
                             Send (release_message e p) (Some e3),
                             ConsoleError (err_message e3)])"
    by (simp add: run_def step_sleep_def console_error_def)
  then show ?thesis by blast
qed

theorem release_exhausted_completes_witness:
  "fst (run (sample_platform (rejects_to ''carol@example.net'')) sample_env sample_params [])
     = Completed
   \<and> length (snd (run (sample_platform (rejects_to ''carol@example.net'')) sample_env
                     sample_params [])) = 6"
proof -
  let ?pf = "sample_platform (rejects_to ''carol@example.net'')"
  let ?n = "notify_message ?pf sample_env sample_params"
  have tn: "transport ?pf [] ?n = None"
    by (simp add: sample_platform_def rejects_to_def em_to_notify sample_env_def)
  have a: "step_do step_retries (send ?pf ?n) [] = (Inr (), [Send ?n None])"
    using step_do_accepted[OF tn] by simp
  have b: "\<forall>h. transport ?pf ([Send ?n None] @ [Sleep (sleep_duration sample_env)] @ h)
             (release_message sample_env sample_params) \<noteq> None"
    by (simp add: sample_platform_def rejects_to_def em_to_release sample_params_def)
  from release_exhausted_completes[OF a b] show ?thesis by auto
qed

subsection \<open>Day counts and the waiting period\<close>










section \<open>Trigger tokens\<close>

subsection \<open>The validity window\<close>









lemma createToken_cases:
  "createToken vp e identity domain t =
     (case ownerTransport vp t (vault_notify_message vp e identity domain) of
        Some err \<Rightarrow> (Inl (Response_json 500 [(''error'', err_message err)]),
                     t @ [Send (vault_notify_message vp e identity domain) (Some err)])
      | None \<Rightarrow> (Inr (jwt_sign vp (token_payload e identity
                       (dateNow vp (t @ [Send (vault_notify_message vp e identity domain) None])))
                       (V_SECRET e)),
                  t @ [Send (vault_notify_message vp e identity domain) None]))"
  by (simp add: createToken_def owner_send_def split: option.splits)




subsection \<open>Issuance and the owner notification\<close>

text \<open>
  Claim C10. When the transport rejects the owner notification, \<open>createToken\<close> returns the
  error response with status 500 and signs nothing; whenever it returns a token, the
  notification was accepted by the transport just before.
\<close>

theorem createToken_needs_notification:
  "(ownerTransport vp t (vault_notify_message vp e identity domain) = Some err \<longrightarrow>
      createToken vp e identity domain t
        = (Inl (Response_json 500 [(''error'', err_message err)]),
           t @ [Send (vault_notify_message vp e identity domain) (Some err)]))
   \<and> (createToken vp e identity domain t = (Inr token, t1) \<longrightarrow>
        ownerTransport vp t (vault_notify_message vp e identity domain) = None
        \<and> t1 = t @ [Send (vault_notify_message vp e identity domain) None]
        \<and> token = jwt_sign vp (token_payload e identity (dateNow vp t1)) (V_SECRET e))"
  by (auto simp: createToken_cases split: option.splits)

theorem createToken_needs_notification_witness:
  "fst (createToken (sample_vault_platform (\<lambda>payload secret. ''token'') (\<lambda>now token secret. Inr True)
                       (\<lambda>token. None) rejects_all)
          (sample_vault_env None None) ''carol@example.net'' (Some ''example.org'') [])
     = Inl (Response_json 500 [(''error'', ''rejected'')])
   \<and> ownerTransport claims_platform []
         (vault_notify_message claims_platform (sample_vault_env None None) ''carol@example.net''
            (Some ''example.org'')) = None"
proof -
  let ?vp = "sample_vault_platform (\<lambda>payload secret. ''token'') (\<lambda>now token secret. Inr True)
               (\<lambda>token. None) rejects_all :: string vault_platform"
  let ?e = "sample_vault_env None None"
  have r: "ownerTransport ?vp [] (vault_notify_message ?vp ?e ''carol@example.net'' (Some ''example.org''))
             = Some sample_error"
    by (simp add: sample_vault_platform_def rejects_all_def)
  have c: "createToken claims_platform ?e ''carol@example.net'' (Some ''example.org'') []
             = (Inr (jwt_sign claims_platform
                       (token_payload ?e ''carol@example.net''
                          (dateNow claims_platform
                             ([] @ [Send (vault_notify_message claims_platform ?e ''carol@example.net''
                                            (Some ''example.org'')) None])))
                       (V_SECRET ?e)),
                [] @ [Send (vault_notify_message claims_platform ?e ''carol@example.net''
                              (Some ''example.org'')) None])"
    by (simp add: createToken_cases claims_platform_def sample_vault_platform_def accepts_all_def)
  from createToken_needs_notification[of ?vp "[]" ?e "''carol@example.net''" "Some ''example.org''"
      sample_error] r
  have a: "fst (createToken ?vp ?e ''carol@example.net'' (Some ''example.org'') [])
     = Inl (Response_json 500 [(''error'', ''rejected'')])"
    by (simp add: sample_error_def)
  from createToken_needs_notification[of claims_platform "[]" ?e "''carol@example.net''"
      "Some ''example.org''" _ _ _] c
  have b: "ownerTransport claims_platform []
         (vault_notify_message claims_platform ?e ''carol@example.net'' (Some ''example.org'')) = None"
    by blast
  from a b show ?thesis by blast
qed

subsection \<open>Verification at the instant of issuance\<close>




subsection \<open>Replies to rejected tokens\<close>



section \<open>Invitations\<close>

subsection \<open>Hexadecimal text and its decoding\<close>

lemma of_char_hexDigit:
  "d < 16 \<Longrightarrow> (of_char (hexDigit d) :: nat) = (if d < 10 then 48 + d else 87 + d)"
  by (simp add: hexDigit_def)

lemma hexValue_hexDigit: "d < 16 \<Longrightarrow> hexValue (hexDigit d) = Some d"
  by (simp add: hexValue_def of_char_hexDigit Let_def)

lemma isLowerHex_hexDigit: "d < 16 \<Longrightarrow> isLowerHex (hexDigit d)"
  by (simp add: isLowerHex_def of_char_hexDigit Let_def)

lemma not_ws_hexDigit: "d < 16 \<Longrightarrow> \<not> isWhiteSpace (hexDigit d)"
  by (auto simp add: isWhiteSpace_def of_char_hexDigit split: if_splits)

lemma hexDigit_neq:
  assumes "d < 16" "(of_char c :: nat) < 48 \<or> (57 < (of_char c :: nat) \<and> (of_char c :: nat) < 97) \<or> 102 < (of_char c :: nat)"
  shows "hexDigit d \<noteq> c"
proof
  assume "hexDigit d = c"
  then have "(of_char (hexDigit d) :: nat) = of_char c" by simp
  with assms show False by (simp add: of_char_hexDigit split: if_splits)
qed

lemma hexDigit_not_sign: "d < 16 \<Longrightarrow> hexDigit d \<noteq> CHR ''-''" "d < 16 \<Longrightarrow> hexDigit d \<noteq> CHR ''+''"
  "d < 16 \<Longrightarrow> hexDigit d \<noteq> CHR ''x''" "d < 16 \<Longrightarrow> hexDigit d \<noteq> CHR ''X''"
  by (rule hexDigit_neq; simp)+

lemma hexDigit_inj: "a < 16 \<Longrightarrow> b < 16 \<Longrightarrow> hexDigit a = hexDigit b \<Longrightarrow> a = b"
proof -
  assume a: "a < 16" and b: "b < 16" and e: "hexDigit a = hexDigit b"
  from e have "(of_char (hexDigit a) :: nat) = of_char (hexDigit b)" by simp
  with a b show "a = b" by (simp add: of_char_hexDigit split: if_splits)
qed

lemma parseInt16_two_digits:
  assumes "a < 16" "b < 16"
  shows "parseInt16 [hexDigit a, hexDigit b] = Some (int (16 * a + b))"
  using assms
  by (simp add: parseInt16_def Let_def not_ws_hexDigit hexDigit_not_sign startsWith_def
      hexValue_hexDigit hexDigitsValue_def)

lemma zero_char: "CHR ''0'' = hexDigit 0"
proof (rule of_char_eqI)
  show "(of_char (CHR ''0'') :: nat) = of_char (hexDigit 0)" by (simp add: hexDigit_def)
qed

lemma toString16_byte:
  "n < 256 \<Longrightarrow> padStart2 (toString16 n) = [hexDigit (n div 16), hexDigit (n mod 16)]"
proof -
  assume n: "n < 256"
  show ?thesis
  proof (cases "n < 16")
    case True
    then show ?thesis by (subst toString16.simps) (simp add: padStart2_def zero_char)
  next
    case False
    with n have "n div 16 < 16" by simp
    then have "toString16 (n div 16) = [hexDigit (n div 16)]"
      by (subst toString16.simps) simp
    with False show ?thesis
      by (subst toString16.simps) (simp add: padStart2_def)
  qed
qed

lemma byte_hex:
  fixes x :: byte
  shows "padStart2 (toString16 (unat x)) = [hexDigit (unat x div 16), hexDigit (unat x mod 16)]"
proof -
  have "unat x < 256" using unsigned_less[of x] by simp
  then show ?thesis by (rule toString16_byte)
qed

lemma decode_byte_hex:
  fixes x :: byte
  shows "toUint8 (parseInt16 [hexDigit (unat x div 16), hexDigit (unat x mod 16)]) = x"
proof -
  have lt: "unat x < 256" using unsigned_less[of x] by simp
  then have "unat x div 16 < 16" "unat x mod 16 < 16" by simp_all
  then have "parseInt16 [hexDigit (unat x div 16), hexDigit (unat x mod 16)]
      = Some (int (16 * (unat x div 16) + unat x mod 16))"
    by (rule parseInt16_two_digits)
  then show ?thesis by (simp add: toUint8_def)
qed

lemma decodeHex_hex:
  "decodeHex (concat (map (\<lambda>x. padStart2 (toString16 (unat x))) bs)) = bs"
  by (induction bs) (simp_all add: byte_hex decode_byte_hex)

lemma hex_all_lower:
  "\<forall>c \<in> set (concat (map (\<lambda>x::byte. padStart2 (toString16 (unat x))) bs)). isLowerHex c"
proof -
  have "\<And>x::byte. unat x div 16 < 16 \<and> unat x mod 16 < 16"
  proof -
    fix x :: byte
    have "unat x < 256" using unsigned_less[of x] by simp
    then show "unat x div 16 < 16 \<and> unat x mod 16 < 16" by simp
  qed
  then show ?thesis by (auto simp: byte_hex isLowerHex_hexDigit)
qed

lemma hex_length:
  "length (concat (map (\<lambda>x::byte. padStart2 (toString16 (unat x))) bs)) = 2 * length bs"
  by (induction bs) (simp_all add: byte_hex)

lemma tokenMatch_prefixed:
  assumes "\<forall>c \<in> set h. isLowerHex c"
  shows "tokenMatch (''iem-'' @ h) = (if 12 \<le> length h then Some h else None)"
proof -
  have tw: "takeWhile isLowerHex h = h" using assms by (simp add: takeWhile_eq_all_conv)
  have nohex: "\<And>s. \<forall>c \<in> set s. isLowerHex c \<Longrightarrow> tokenMatch s = None"
  proof -
    fix s :: string
    assume "\<forall>c \<in> set s. isLowerHex c"
    then show "tokenMatch s = None"
      by (induction s) (auto simp: startsWith_def isLowerHex_def Let_def)
  qed
  have e: "\<not> isLowerHex (CHR ''e'') \<or> True" by simp
  show ?thesis
  proof (cases "12 \<le> length h")
    case True
    then show ?thesis by (simp add: startsWith_def tw)
  next
    case False
    have "tokenMatch (''em-'' @ h) = tokenMatch (''m-'' @ h)"
      by (simp add: startsWith_def)
    moreover have "tokenMatch (''m-'' @ h) = tokenMatch (''-'' @ h)"
      by (simp add: startsWith_def)
    moreover have "tokenMatch (''-'' @ h) = tokenMatch h"
      by (simp add: startsWith_def)
    ultimately have "tokenMatch (''em-'' @ h) = None" using nohex[OF assms] by simp
    with False show ?thesis by (simp add: startsWith_def tw)
  qed
qed

lemma invitation_hex_decodes:
  "decodeHex (invitation_hex pf e owner contact) = invitation_signature pf e owner contact"
  by (simp add: invitation_hex_def decodeHex_hex)

lemma submitted_invitation_hex:
  assumes "in_text message = Some (''iem-'' @ invitation_hex pf e owner contact)"
  shows "submitted_token message
           = (if 6 \<le> length (invitation_signature pf e owner contact)
              then Some (invitation_hex pf e owner contact) else None)"
  using assms tokenMatch_prefixed[OF hex_all_lower, of "invitation_signature pf e owner contact"]
  by (simp add: submitted_token_def invitation_hex_def hex_length del: tokenMatch.simps)

subsection \<open>The signed text determines the pair\<close>

lemma quoteJSONChar_shape:
  "(\<exists>k. quoteJSONChar c = [CHR 0x5C, k] \<and> k \<noteq> CHR ''u''
        \<and> c = (if k = CHR 0x22 then CHR 0x22 else if k = CHR 0x5C then CHR 0x5C
                else if k = CHR ''b'' then CHR 0x08 else if k = CHR ''f'' then CHR 0x0C
                else if k = CHR ''n'' then CHR 0x0A else if k = CHR ''r'' then CHR 0x0D
                else CHR 0x09))
   \<or> ((of_char c :: nat) < 32
        \<and> quoteJSONChar c = [CHR 0x5C, CHR ''u'', CHR ''0'', CHR ''0'',
                               hexDigit ((of_char c :: nat) div 16), hexDigit ((of_char c :: nat) mod 16)])
   \<or> (quoteJSONChar c = [c] \<and> c \<noteq> CHR 0x5C \<and> c \<noteq> CHR 0x22)"
proof -
  let ?n = "of_char c :: nat"
  have c: "c = char_of ?n" by simp
  consider "?n = 0x22" | "?n = 0x5C" | "?n = 8" | "?n = 12" | "?n = 10" | "?n = 13" | "?n = 9"
    | "?n < 32" "?n \<notin> {8, 12, 10, 13, 9}" | "32 \<le> ?n" "?n \<noteq> 0x22" "?n \<noteq> 0x5C"
    by fastforce
  then show ?thesis
  proof cases
    case 1
    then have "c = CHR 0x22" by (intro of_char_eqI[where ?'a = nat]) simp
    then show ?thesis by (simp add: quoteJSONChar_def)
  next
    case 2
    then have "c = CHR 0x5C" by (intro of_char_eqI[where ?'a = nat]) simp
    then show ?thesis by (simp add: quoteJSONChar_def)
  next
    case 3
    then have "c = CHR 0x08" by (intro of_char_eqI[where ?'a = nat]) simp
    then show ?thesis by (simp add: quoteJSONChar_def)
  next
    case 4
    then have "c = CHR 0x0C" by (intro of_char_eqI[where ?'a = nat]) simp
    then show ?thesis by (simp add: quoteJSONChar_def)
  next
    case 5
    then have "c = CHR 0x0A" by (intro of_char_eqI[where ?'a = nat]) simp
    then show ?thesis by (simp add: quoteJSONChar_def)
  next
    case 6
    then have "c = CHR 0x0D" by (intro of_char_eqI[where ?'a = nat]) simp
    then show ?thesis by (simp add: quoteJSONChar_def)
  next
    case 7
    then have "c = CHR 0x09" by (intro of_char_eqI[where ?'a = nat]) simp
    then show ?thesis by (simp add: quoteJSONChar_def)
  next
    case 8
    then have "quoteJSONChar c = [CHR 0x5C, CHR ''u'', CHR ''0'', CHR ''0'']
                 @ padStart2 (toString16 ?n)"
      by (simp add: quoteJSONChar_def Let_def)
    with 8 show ?thesis by (simp add: toString16_byte)
  next
    case 9
    then have q: "quoteJSONChar c = [c]" by (simp add: quoteJSONChar_def Let_def)
    from 9 have "c \<noteq> CHR 0x5C" "c \<noteq> CHR 0x22" by auto
    with q show ?thesis by simp
  qed
qed

lemma quoteJSONChar_prefix_code:
  assumes "quoteJSONChar x @ u = quoteJSONChar y @ v"
  shows "x = y \<and> u = v"
proof -
  have uni: "x = y" if "(of_char x :: nat) < 32" "(of_char y :: nat) < 32"
    "hexDigit ((of_char x :: nat) div 16) = hexDigit ((of_char y :: nat) div 16)"
    "hexDigit ((of_char x :: nat) mod 16) = hexDigit ((of_char y :: nat) mod 16)"
  proof -
    from that have "(of_char x :: nat) div 16 = (of_char y :: nat) div 16"
      "(of_char x :: nat) mod 16 = (of_char y :: nat) mod 16"
      using hexDigit_inj[of "(of_char x :: nat) div 16" "(of_char y :: nat) div 16"]
        hexDigit_inj[of "(of_char x :: nat) mod 16" "(of_char y :: nat) mod 16"] by simp_all
    then have "(of_char x :: nat) = of_char y" by (metis div_mult_mod_eq)
    then show ?thesis by simp
  qed
  from quoteJSONChar_shape[of x] quoteJSONChar_shape[of y] assms show ?thesis
    by (elim disjE exE conjE) (auto dest: uni split: if_splits)
qed

lemma quoted_unambiguous:
  "concat (map quoteJSONChar xs) @ CHR 0x22 # u = concat (map quoteJSONChar ys) @ CHR 0x22 # v
     \<Longrightarrow> xs = ys \<and> u = v"
proof (induction xs arbitrary: ys)
  case Nil
  show ?case
  proof (cases ys)
    case Nil
    with Nil.prems show ?thesis by simp
  next
    case (Cons y ys')
    with Nil.prems have "CHR 0x22 # u = quoteJSONChar y @ concat (map quoteJSONChar ys') @ CHR 0x22 # v"
      by simp
    with quoteJSONChar_shape[of y] have False by auto
    then show ?thesis ..
  qed
next
  case (Cons x xs')
  show ?case
  proof (cases ys)
    case Nil
    with Cons.prems have "quoteJSONChar x @ concat (map quoteJSONChar xs') @ CHR 0x22 # u = CHR 0x22 # v"
      by simp
    with quoteJSONChar_shape[of x] have False by auto
    then show ?thesis ..
  next
    case (Cons y ys')
    with Cons.prems have
      "quoteJSONChar x @ (concat (map quoteJSONChar xs') @ CHR 0x22 # u)
         = quoteJSONChar y @ (concat (map quoteJSONChar ys') @ CHR 0x22 # v)"
      by simp
    from quoteJSONChar_prefix_code[OF this] have xy: "x = y"
      and rest: "concat (map quoteJSONChar xs') @ CHR 0x22 # u
                   = concat (map quoteJSONChar ys') @ CHR 0x22 # v"
      by simp_all
    from Cons.IH[OF rest] xy Cons show ?thesis by simp
  qed
qed

lemma invitation_payload_inj:
  assumes "invitation_payload contact owner = invitation_payload contact' owner'"
  shows "contact = contact' \<and> owner = owner'"
proof -
  let ?tail = "\<lambda>ow. '',\"owner\":'' @ CHR 0x22 # concat (map quoteJSONChar ow)
                        @ CHR 0x22 # '',\"usage\":\"invitation\"}''"
  from assms have
    "concat (map quoteJSONChar contact) @ CHR 0x22 # ?tail owner
       = concat (map quoteJSONChar contact') @ CHR 0x22 # ?tail owner'"
    by (simp add: invitation_payload_def quoteJSONString_def)
  from quoted_unambiguous[OF this] have c: "contact = contact'" and t: "?tail owner = ?tail owner'"
    by simp_all
  from t have
    "concat (map quoteJSONChar owner) @ CHR 0x22 # '',\"usage\":\"invitation\"}''
       = concat (map quoteJSONChar owner') @ CHR 0x22 # '',\"usage\":\"invitation\"}''"
    by simp
  from quoted_unambiguous[OF this] c show ?thesis by simp
qed

lemma byte_of_char_inj: "(of_char a :: byte) = of_char b \<Longrightarrow> a = b"
proof -
  assume e: "(of_char a :: byte) = of_char b"
  have u: "\<And>c. unat (of_char c :: byte) = (of_char c :: nat)"
  proof -
    fix c
    have "(of_char c :: byte) = of_nat (of_char c)" by (simp add: of_nat_of_char)
    then have "unat (of_char c :: byte) = (of_char c :: nat) mod 256" by (simp add: unat_of_nat)
    then show "unat (of_char c :: byte) = (of_char c :: nat)" by simp
  qed
  from e have "unat (of_char a :: byte) = unat (of_char b :: byte)" by simp
  then have "(of_char a :: nat) = of_char b" by (simp add: u)
  then show "a = b" by simp
qed

lemma textEncode_inj: "textEncode s = textEncode s' \<Longrightarrow> s = s'"
  unfolding textEncode_def
  by (rule map_injective) (auto simp: inj_on_def dest: byte_of_char_inj)

lemma signed_data_differ:
  "(contact', owner') \<noteq> (contact, owner) \<Longrightarrow>
   textEncode (invitation_payload contact' owner') \<noteq> textEncode (invitation_payload contact owner)"
  by (auto dest!: textEncode_inj invitation_payload_inj)

subsection \<open>Workflow instances created by a trace\<close>

lemma created_append: "created (t @ u) = created t @ created u"
  by (induction t rule: created.induct) simp_all

lemma created_sends: "created (map (\<lambda>(c, r). Send (f c) r) zs) = []"
  by (induction zs) auto

lemma created_send: "created (snd (send pf m t)) = created t"
  by (simp add: send_result created_append)

lemma created_reply: "created (snd (reply pf m t)) = created t"
  by (simp add: reply_def created_append split: option.splits)

lemma created_console_error: "created (console_error l t) = created t"
  by (simp add: console_error_def created_append)

lemma allSettled_invitations_trace:
  "\<exists>outcomes. length outcomes = length contacts
     \<and> snd (allSettled_invitations pf e b ow contacts t)
         = t @ map (\<lambda>(c, r). Send (invitation_message pf e b ow c) r) (zip contacts outcomes)
     \<and> fst (allSettled_invitations pf e b ow contacts t)
         = map (\<lambda>r. case r of None \<Rightarrow> Fulfilled | Some err \<Rightarrow> Rejected err) outcomes
     \<and> (\<forall>i < length contacts.
          outcomes ! i
            = transport pf
                (t @ map (\<lambda>(c, r). Send (invitation_message pf e b ow c) r)
                       (zip (take i contacts) (take i outcomes)))
                (invitation_message pf e b ow (contacts ! i)))"
proof (induction contacts arbitrary: t)
  case Nil
  then show ?case by simp
next
  case (Cons c cs)
  let ?m = "invitation_message pf e b ow c"
  let ?r = "transport pf t ?m"
  let ?t1 = "t @ [Send ?m ?r]"
  from Cons.IH[of ?t1] obtain outs where
    len: "length outs = length cs"
    and tr: "snd (allSettled_invitations pf e b ow cs ?t1)
         = ?t1 @ map (\<lambda>(c, r). Send (invitation_message pf e b ow c) r) (zip cs outs)"
    and rs: "fst (allSettled_invitations pf e b ow cs ?t1)
         = map (\<lambda>r. case r of None \<Rightarrow> Fulfilled | Some err \<Rightarrow> Rejected err) outs"
    and each: "\<forall>i < length cs.
          outs ! i
            = transport pf
                (?t1 @ map (\<lambda>(c, r). Send (invitation_message pf e b ow c) r)
                       (zip (take i cs) (take i outs)))
                (invitation_message pf e b ow (cs ! i))"
    by blast
  have step: "allSettled_invitations pf e b ow (c # cs) t
      = ((case ?r of None \<Rightarrow> Fulfilled | Some err \<Rightarrow> Rejected err)
           # fst (allSettled_invitations pf e b ow cs ?t1),
         snd (allSettled_invitations pf e b ow cs ?t1))"
    by (simp add: sendInvitationEmail_def send_result split: prod.splits option.splits)
  have "length (?r # outs) = length (c # cs)" using len by simp
  moreover have "snd (allSettled_invitations pf e b ow (c # cs) t)
         = t @ map (\<lambda>(c, r). Send (invitation_message pf e b ow c) r) (zip (c # cs) (?r # outs))"
    using step tr by simp
  moreover have "fst (allSettled_invitations pf e b ow (c # cs) t)
         = map (\<lambda>r. case r of None \<Rightarrow> Fulfilled | Some err \<Rightarrow> Rejected err) (?r # outs)"
    using step rs by simp
  moreover have "\<forall>i < length (c # cs).
          (?r # outs) ! i
            = transport pf
                (t @ map (\<lambda>(c, r). Send (invitation_message pf e b ow c) r)
                       (zip (take i (c # cs)) (take i (?r # outs))))
                (invitation_message pf e b ow ((c # cs) ! i))"
  proof (intro allI impI)
    fix i assume "i < length (c # cs)"
    then show "(?r # outs) ! i
            = transport pf
                (t @ map (\<lambda>(c, r). Send (invitation_message pf e b ow c) r)
                       (zip (take i (c # cs)) (take i (?r # outs))))
                (invitation_message pf e b ow ((c # cs) ! i))"
      using each by (cases i) simp_all
  qed
  ultimately show ?case by blast
qed

lemma created_allSettled:
  "created (snd (allSettled_invitations pf e b ow contacts t)) = created t"
proof -
  from allSettled_invitations_trace[of contacts pf e b ow t] obtain outcomes where
    "snd (allSettled_invitations pf e b ow contacts t)
         = t @ map (\<lambda>(c, r). Send (invitation_message pf e b ow c) r) (zip contacts outcomes)"
    by blast
  then show ?thesis by (simp add: created_append created_sends)
qed

lemma created_handleOwnerEmail: "created (handleOwnerEmail pf e message t) = created t"
proof -
  have s: "\<And>m t'. created (case send pf m t' of
                 (Inr u, t2) \<Rightarrow> t2
               | (Inl err, t2) \<Rightarrow>
                   if includes_str (err_message err) ''verified'' then
                     (case reply pf (warned m) t2 of
                        (Inr u, t3) \<Rightarrow> t3
                      | (Inl err2, t3) \<Rightarrow> console_error (err_message err2) t3)
                   else console_error (err_message err) t2) = created t'"
  proof -
    fix m t'
    obtain r t2 where a: "send pf m t' = (r, t2)" by (cases "send pf m t'")
    then have c2: "created t2 = created t'" using created_send[of pf m t'] by simp
    obtain r3 t3 where b: "reply pf (warned m) t2 = (r3, t3)" by (cases "reply pf (warned m) t2")
    then have c3: "created t3 = created t2" using created_reply[of pf "warned m" t2] by simp
    show "created (case send pf m t' of
                 (Inr u, t2) \<Rightarrow> t2
               | (Inl err, t2) \<Rightarrow>
                   if includes_str (err_message err) ''verified'' then
                     (case reply pf (warned m) t2 of
                        (Inr u, t3) \<Rightarrow> t3
                      | (Inl err2, t3) \<Rightarrow> console_error (err_message err2) t3)
                   else console_error (err_message err) t2) = created t'"
      using a b c2 c3 by (cases r; cases r3) (simp_all add: created_console_error)
  qed
  have a: "\<And>cs x1 x2a. allSettled_invitations pf e (in_to message) (in_from message) cs t = (x1, x2a)
              \<Longrightarrow> created x2a = created t"
    using created_allSettled[of pf e "in_to message" "in_from message" _ t]
    by (metis snd_conv)
  show ?thesis
    by (auto simp: handleOwnerEmail_def created_console_error Let_def s a
        split: option.splits prod.splits)
qed

lemma created_handleContactEmail:
  "created (handleContactEmail pf e message t)
     = created t @
       (if \<not> truthy_str (in_inReplyTo message)
          \<and> (case submitted_token message of
                None \<Rightarrow> False
              | Some token \<Rightarrow>
                  decodeHex token
                    = hmacSha256 pf (textEncode (SECRET e))
                        (textEncode (invitation_payload (in_from message) (OWNER_EMAIL e))))
        then [\<lparr>wf_id = randomUUID pf t, wf_identity = in_from message,
               wf_domain = domain_of (in_to message)\<rparr>]
        else [])"
proof -
  have r: "\<And>m t'. created (case reply pf m t' of
                        (Inr u, t2) \<Rightarrow> t2
                      | (Inl err, t2) \<Rightarrow> console_error (err_message err) t2) = created t'"
  proof -
    fix m t'
    obtain r t2 where a: "reply pf m t' = (r, t2)" by (cases "reply pf m t'")
    then have "created t2 = created t'" using created_reply[of pf m t'] by simp
    with a show "created (case reply pf m t' of
                        (Inr u, t2) \<Rightarrow> t2
                      | (Inl err, t2) \<Rightarrow> console_error (err_message err) t2) = created t'"
      by (cases r) (simp_all add: created_console_error)
  qed
  show ?thesis
    by (auto simp: handleContactEmail_def Let_def r created_console_error created_append
        verify_invitation_def split: option.splits)
qed

lemma replay_count:
  assumes "\<And>t. created (f t) = created t @ [g t]"
  shows "length (created ((f ^^ n) t)) = length (created t) + n"
  by (induction n) (simp_all add: assms)

lemma toy_signature_length:
  "length (invitation_signature (sample_platform tr) e ow c) = 32"
  by (simp add: invitation_signature_def sample_platform_def toy_mac_def)

lemma payload_length_carol:
  "length (invitation_payload ''carol@example.net'' ''owner@example.org'') = 80"
  by (simp add: invitation_payload_def quoteJSONString_def quoteJSONChar_def)

lemma payload_length_dave:
  "length (invitation_payload ''dave@example.net'' ''owner@example.org'') = 79"
  by (simp add: invitation_payload_def quoteJSONString_def quoteJSONChar_def)

subsection \<open>Issuance and verification\<close>

text \<open>
  Claim C3. The hexadecimal signature of an invitation depends on the HMAC function, the
  secret, the owner and the contact only, not on the trace, the transport or the rest of the
  platform; it is the HMAC of the JSON text with the keys \<open>contact\<close>, \<open>owner\<close>, \<open>usage\<close> in
  this order, and the message sent at any trace carries it. When the contact sends it back
  (and the MAC has at least six bytes, as every SHA-256 MAC has), the token is found, the
  verification succeeds, a workflow instance is created for the contact, and each of \<open>n\<close>
  deliveries of the same mail creates one more instance.
\<close>

theorem invitation_deterministic_replayable:
  assumes long: "6 \<le> length (invitation_signature pf e (OWNER_EMAIL e) contact)"
    and sender: "in_from message = contact"
    and fresh: "\<not> truthy_str (in_inReplyTo message)"
    and body: "in_text message = Some (''iem-'' @ invitation_hex pf e (OWNER_EMAIL e) contact)"
  shows "(hmacSha256 pf' = hmacSha256 pf \<and> SECRET e' = SECRET e \<longrightarrow>
            invitation_hex pf' e' (OWNER_EMAIL e) contact = invitation_hex pf e (OWNER_EMAIL e) contact)
    \<and> snd (sendInvitationEmail pf e botAddr (OWNER_EMAIL e) contact t1)
        = t1 @ [Send (invitation_message pf e botAddr (OWNER_EMAIL e) contact)
                  (transport pf t1 (invitation_message pf e botAddr (OWNER_EMAIL e) contact))]
    \<and> invitation_signature pf e (OWNER_EMAIL e) contact
        = hmacSha256 pf (textEncode (SECRET e))
            (textEncode (invitation_payload contact (OWNER_EMAIL e)))
    \<and> invitation_payload contact (OWNER_EMAIL e)
        = ''{\"contact\":'' @ quoteJSONString contact
          @ '',\"owner\":'' @ quoteJSONString (OWNER_EMAIL e) @ '',\"usage\":\"invitation\"}''
    \<and> submitted_token message = Some (invitation_hex pf e (OWNER_EMAIL e) contact)
    \<and> verify_invitation pf e contact (invitation_hex pf e (OWNER_EMAIL e) contact)
    \<and> created (handleContactEmail pf e message t)
        = created t @ [\<lparr>wf_id = randomUUID pf t, wf_identity = contact,
                         wf_domain = domain_of (in_to message)\<rparr>]
    \<and> length (created ((handleContactEmail pf e message ^^ n) t)) = length (created t) + n"
proof -
  have det: "hmacSha256 pf' = hmacSha256 pf \<and> SECRET e' = SECRET e \<longrightarrow>
            invitation_hex pf' e' (OWNER_EMAIL e) contact = invitation_hex pf e (OWNER_EMAIL e) contact"
    by (simp add: invitation_hex_def invitation_signature_def)
  have sent: "snd (sendInvitationEmail pf e botAddr (OWNER_EMAIL e) contact t1)
        = t1 @ [Send (invitation_message pf e botAddr (OWNER_EMAIL e) contact)
                  (transport pf t1 (invitation_message pf e botAddr (OWNER_EMAIL e) contact))]"
    by (simp add: sendInvitationEmail_def send_result)
  have sig: "invitation_signature pf e (OWNER_EMAIL e) contact
        = hmacSha256 pf (textEncode (SECRET e))
            (textEncode (invitation_payload contact (OWNER_EMAIL e)))"
    by (simp add: invitation_signature_def)
  have tok: "submitted_token message = Some (invitation_hex pf e (OWNER_EMAIL e) contact)"
    using submitted_invitation_hex[OF body] long by simp
  have ver: "verify_invitation pf e contact (invitation_hex pf e (OWNER_EMAIL e) contact)"
    by (simp add: verify_invitation_def invitation_hex_decodes sig)
  have one: "\<And>t. created (handleContactEmail pf e message t)
        = created t @ [\<lparr>wf_id = randomUUID pf t, wf_identity = contact,
                         wf_domain = domain_of (in_to message)\<rparr>]"
    using fresh tok sender sig
    by (simp add: created_handleContactEmail invitation_hex_decodes)
  have shape: "invitation_payload contact (OWNER_EMAIL e)
        = ''{\"contact\":'' @ quoteJSONString contact
          @ '',\"owner\":'' @ quoteJSONString (OWNER_EMAIL e) @ '',\"usage\":\"invitation\"}''"
    by (simp add: invitation_payload_def)
  from det sent sig shape tok ver one replay_count[of "handleContactEmail pf e message", OF one]
  show ?thesis by blast
qed

theorem invitation_deterministic_replayable_witness:
  "verify_invitation (sample_platform accepts_all) sample_env ''carol@example.net''
     (invitation_hex (sample_platform accepts_all) sample_env ''owner@example.org'' ''carol@example.net'')
   \<and> length (created
        ((handleContactEmail (sample_platform accepts_all) sample_env
            (sample_request ''carol@example.net''
               (Some (''iem-'' @ invitation_hex (sample_platform accepts_all) sample_env
                                  ''owner@example.org'' ''carol@example.net''))) ^^ 3) [])) = 3"
proof -
  let ?pf = "sample_platform accepts_all"
  let ?hex = "invitation_hex ?pf sample_env (OWNER_EMAIL sample_env) ''carol@example.net''"
  let ?m = "sample_request ''carol@example.net'' (Some (''iem-'' @ ?hex))"
  have o: "OWNER_EMAIL sample_env = ''owner@example.org''" by (simp add: sample_env_def)
  have long: "6 \<le> length (invitation_signature ?pf sample_env (OWNER_EMAIL sample_env) ''carol@example.net'')"
    by (simp add: toy_signature_length)
  have sender: "in_from ?m = ''carol@example.net''" by (simp add: sample_request_def)
  have fresh: "\<not> truthy_str (in_inReplyTo ?m)" by (simp add: sample_request_def truthy_str_def)
  have body: "in_text ?m = Some (''iem-'' @ ?hex)" by (simp add: sample_request_def)
  from invitation_deterministic_replayable[OF long sender fresh body, of ?pf sample_env _ _ "[]" 3]
  show ?thesis by (simp add: o)
qed

text \<open>
  Claim C9. The handler \<open>email\<close> creates a workflow instance exactly when the sender is not
  the owner, the mail is not a reply, the body holds an \<open>iem-\<close> token of at least twelve
  hexadecimal digits, and the bytes of that token are the HMAC, under \<open>SECRET\<close>, of the
  payload for (contact = sender, owner = \<open>OWNER_EMAIL\<close>); the instance is for the sender.
  The invitation token issued for a pair whose MAC differs from the MAC of this pair creates
  nothing; the bytes that are signed for two different pairs are different, so that only a
  collision of the HMAC could make the two MACs equal. A body without a token creates nothing.
\<close>

theorem workflow_needs_valid_invitation:
  "created (email pf e message t)
     = created t @
       (if in_from message \<noteq> OWNER_EMAIL e \<and> \<not> truthy_str (in_inReplyTo message)
          \<and> (case submitted_token message of
                None \<Rightarrow> False
              | Some token \<Rightarrow>
                  decodeHex token
                    = hmacSha256 pf (textEncode (SECRET e))
                        (textEncode (invitation_payload (in_from message) (OWNER_EMAIL e))))
        then [\<lparr>wf_id = randomUUID pf t, wf_identity = in_from message,
               wf_domain = domain_of (in_to message)\<rparr>]
        else [])
   \<and> (in_text message = Some (''iem-'' @ invitation_hex pf e owner' contact')
        \<and> invitation_signature pf e owner' contact'
            \<noteq> invitation_signature pf e (OWNER_EMAIL e) (in_from message)
        \<longrightarrow> created (email pf e message t) = created t)
   \<and> ((contact', owner') \<noteq> (in_from message, OWNER_EMAIL e)
        \<longrightarrow> textEncode (invitation_payload contact' owner')
              \<noteq> textEncode (invitation_payload (in_from message) (OWNER_EMAIL e)))
   \<and> (submitted_token message = None \<longrightarrow> created (email pf e message t) = created t)"
proof -
  have main: "created (email pf e message t)
     = created t @
       (if in_from message \<noteq> OWNER_EMAIL e \<and> \<not> truthy_str (in_inReplyTo message)
          \<and> (case submitted_token message of
                None \<Rightarrow> False
              | Some token \<Rightarrow>
                  decodeHex token
                    = hmacSha256 pf (textEncode (SECRET e))
                        (textEncode (invitation_payload (in_from message) (OWNER_EMAIL e))))
        then [\<lparr>wf_id = randomUUID pf t, wf_identity = in_from message,
               wf_domain = domain_of (in_to message)\<rparr>]
        else [])"
    by (simp add: email_def created_handleOwnerEmail created_handleContactEmail)
  have other: "created (email pf e message t) = created t"
    if "in_text message = Some (''iem-'' @ invitation_hex pf e owner' contact')"
      and "invitation_signature pf e owner' contact'
            \<noteq> invitation_signature pf e (OWNER_EMAIL e) (in_from message)"
    using that submitted_invitation_hex[OF that(1)]
    by (simp add: main invitation_hex_decodes invitation_signature_def)
  have none: "created (email pf e message t) = created t" if "submitted_token message = None"
    using that by (simp add: main)
  from main other none signed_data_differ[of contact' owner' "in_from message" "OWNER_EMAIL e"]
  show ?thesis by blast
qed

theorem workflow_needs_valid_invitation_witness:
  "textEncode (invitation_payload ''dave@example.net'' ''owner@example.org'')
     \<noteq> textEncode (invitation_payload ''carol@example.net'' ''owner@example.org'')
   \<and> created (email (sample_platform accepts_all) sample_env
       (sample_request ''carol@example.net''
          (Some (''iem-'' @ invitation_hex (sample_platform accepts_all) sample_env
                             ''owner@example.org'' ''dave@example.net''))) []) = []
   \<and> created (email (sample_platform accepts_all) sample_env
         (sample_request ''carol@example.net'' (Some ''please release the vault'')) []) = []
   \<and> created (email (sample_platform accepts_all) sample_env
         (sample_request ''carol@example.net''
            (Some (''iem-'' @ invitation_hex (sample_platform accepts_all) sample_env
                               ''owner@example.org'' ''carol@example.net''))) [])
       = [\<lparr>wf_id = ''00000000-0000-4000-8000-000000000000'', wf_identity = ''carol@example.net'',
           wf_domain = Some ''example.org''\<rparr>]"
proof -
  let ?pf = "sample_platform accepts_all"
  let ?other = "sample_request ''carol@example.net''
          (Some (''iem-'' @ invitation_hex ?pf sample_env ''owner@example.org'' ''dave@example.net''))"
  let ?plain = "sample_request ''carol@example.net'' (Some ''please release the vault'')"
  let ?valid = "sample_request ''carol@example.net''
          (Some (''iem-'' @ invitation_hex ?pf sample_env ''owner@example.org'' ''carol@example.net''))"
  have o: "OWNER_EMAIL sample_env = ''owner@example.org''" by (simp add: sample_env_def)
  have differ: "invitation_signature ?pf sample_env ''owner@example.org'' ''dave@example.net''
                  \<noteq> invitation_signature ?pf sample_env (OWNER_EMAIL sample_env) (in_from ?other)"
    by (simp add: invitation_signature_def sample_platform_def toy_mac_def textEncode_def o
        sample_request_def payload_length_carol payload_length_dave)
  have t_other: "in_text ?other
      = Some (''iem-'' @ invitation_hex ?pf sample_env ''owner@example.org'' ''dave@example.net'')"
    by (simp add: sample_request_def)
  from workflow_needs_valid_invitation[of ?pf sample_env ?other "[]" "''owner@example.org''"
      "''dave@example.net''"]
  have "in_text ?other
          = Some (''iem-'' @ invitation_hex ?pf sample_env ''owner@example.org'' ''dave@example.net'')
        \<and> invitation_signature ?pf sample_env ''owner@example.org'' ''dave@example.net''
            \<noteq> invitation_signature ?pf sample_env (OWNER_EMAIL sample_env) (in_from ?other)
        \<longrightarrow> created (email ?pf sample_env ?other []) = created []"
    by blast
  with t_other differ have a: "created (email ?pf sample_env ?other []) = []" by simp
  have none: "submitted_token ?plain = None"
    by (simp add: submitted_token_def sample_request_def startsWith_def)
  from workflow_needs_valid_invitation[of ?pf sample_env ?plain "[]"]
  have "submitted_token ?plain = None \<longrightarrow> created (email ?pf sample_env ?plain []) = created []"
    by blast
  with none have b: "created (email ?pf sample_env ?plain []) = []" by simp
  have tok: "submitted_token ?valid
      = Some (invitation_hex ?pf sample_env ''owner@example.org'' ''carol@example.net'')"
    using submitted_invitation_hex[of ?valid ?pf sample_env "''owner@example.org''" "''carol@example.net''"]
    by (simp add: sample_request_def toy_signature_length)
  have dom: "domain_of (in_to ?valid) = Some ''example.org''"
    by (simp add: domain_of_def sample_request_def)
  have cond: "in_from ?valid \<noteq> OWNER_EMAIL sample_env \<and> \<not> truthy_str (in_inReplyTo ?valid)
          \<and> (case submitted_token ?valid of
                None \<Rightarrow> False
              | Some token \<Rightarrow>
                  decodeHex token
                    = hmacSha256 ?pf (textEncode (SECRET sample_env))
                        (textEncode (invitation_payload (in_from ?valid) (OWNER_EMAIL sample_env))))"
  proof -
    have fr: "in_from ?valid = ''carol@example.net''" by (simp add: sample_request_def)
    have nr: "\<not> truthy_str (in_inReplyTo ?valid)" by (simp add: sample_request_def truthy_str_def)
    have dec: "decodeHex (invitation_hex ?pf sample_env ''owner@example.org'' ''carol@example.net'')
        = hmacSha256 ?pf (textEncode (SECRET sample_env))
            (textEncode (invitation_payload ''carol@example.net'' ''owner@example.org''))"
      by (simp add: invitation_hex_decodes invitation_signature_def)
    show ?thesis unfolding tok fr o using nr dec by simp
  qed
  from workflow_needs_valid_invitation[of ?pf sample_env ?valid "[]"]
  have "created (email ?pf sample_env ?valid [])
     = created [] @
       (if in_from ?valid \<noteq> OWNER_EMAIL sample_env \<and> \<not> truthy_str (in_inReplyTo ?valid)
          \<and> (case submitted_token ?valid of
                None \<Rightarrow> False
              | Some token \<Rightarrow>
                  decodeHex token
                    = hmacSha256 ?pf (textEncode (SECRET sample_env))
                        (textEncode (invitation_payload (in_from ?valid) (OWNER_EMAIL sample_env))))
        then [\<lparr>wf_id = randomUUID ?pf [], wf_identity = in_from ?valid,
               wf_domain = domain_of (in_to ?valid)\<rparr>]
        else [])"
    by blast
  also have "\<dots> = [\<lparr>wf_id = randomUUID ?pf [], wf_identity = in_from ?valid,
               wf_domain = domain_of (in_to ?valid)\<rparr>]"
    using cond by simp
  also have "\<dots> = [\<lparr>wf_id = ''00000000-0000-4000-8000-000000000000'',
                       wf_identity = ''carol@example.net'', wf_domain = Some ''example.org''\<rparr>]"
  proof -
    have "randomUUID ?pf [] = ''00000000-0000-4000-8000-000000000000''"
      by (simp add: sample_platform_def)
    moreover have "in_from ?valid = ''carol@example.net''" by (simp add: sample_request_def)
    ultimately show ?thesis using dom by simp
  qed
  finally have c: "created (email ?pf sample_env ?valid [])
       = [\<lparr>wf_id = ''00000000-0000-4000-8000-000000000000'', wf_identity = ''carol@example.net'',
           wf_domain = Some ''example.org''\<rparr>]" .
  from workflow_needs_valid_invitation[of ?pf sample_env ?valid "[]" "''owner@example.org''"
      "''dave@example.net''"]
  have "(''dave@example.net'', ''owner@example.org'') \<noteq> (in_from ?valid, OWNER_EMAIL sample_env)
        \<longrightarrow> textEncode (invitation_payload ''dave@example.net'' ''owner@example.org'')
              \<noteq> textEncode (invitation_payload (in_from ?valid) (OWNER_EMAIL sample_env))"
    by blast
  moreover have "in_from ?valid = ''carol@example.net''" by (simp add: sample_request_def)
  ultimately have d: "textEncode (invitation_payload ''dave@example.net'' ''owner@example.org'')
     \<noteq> textEncode (invitation_payload ''carol@example.net'' ''owner@example.org'')"
    by (simp add: o)
  from a b c d show ?thesis by blast
qed

subsection \<open>Fan-out to the contacts\<close>

lemma resultsReport_outcomes:
  "length outcomes = length contacts \<Longrightarrow>
   resultsReport contacts (map (\<lambda>r. case r of None \<Rightarrow> Fulfilled | Some err \<Rightarrow> Rejected err) outcomes)
     = concat (map (\<lambda>(c, r). c @ '': ''
                     @ (case r of None \<Rightarrow> ''success'' | Some err \<Rightarrow> error_toString err) @ [CHR 10])
                 (zip contacts outcomes))"
proof (induction contacts arbitrary: outcomes)
  case Nil
  then show ?case by (simp add: resultsReport_def)
next
  case (Cons c cs)
  then obtain r rs where o: "outcomes = r # rs" "length rs = length cs" by (cases outcomes) auto
  from Cons.IH[OF o(2)] show ?case
    by (simp add: o resultsReport_def split: option.splits)
qed

lemma em_to_invitation: "em_to (invitation_message pf e b ow c) = c"
  by (simp add: invitation_message_def Let_def)

text \<open>
  Claim C8. For every list of contacts the fan-out calls the transport once for each contact,
  in order, with the invitation for that contact, and keeps one result for each contact: the
  result at index \<open>i\<close> is what the transport answered for contact \<open>i\<close>, whatever it answered
  for the others. The report has one line for each contact, and the handler sends it to the
  owner after the invitations.
\<close>

theorem invitation_fan_out:
  "\<exists>outcomes. length outcomes = length contacts
     \<and> snd (allSettled_invitations pf e botAddr owner contacts t)
         = t @ map (\<lambda>(c, r). Send (invitation_message pf e botAddr owner c) r) (zip contacts outcomes)
     \<and> fst (allSettled_invitations pf e botAddr owner contacts t)
         = map (\<lambda>r. case r of None \<Rightarrow> Fulfilled | Some err \<Rightarrow> Rejected err) outcomes
     \<and> resultsReport contacts (fst (allSettled_invitations pf e botAddr owner contacts t))
         = concat (map (\<lambda>(c, r). c @ '': ''
                         @ (case r of None \<Rightarrow> ''success'' | Some err \<Rightarrow> error_toString err)
                         @ [CHR 10])
                     (zip contacts outcomes))
     \<and> (\<forall>i < length contacts.
          outcomes ! i
            = transport pf
                (t @ map (\<lambda>(c, r). Send (invitation_message pf e botAddr owner c) r)
                       (zip (take i contacts) (take i outcomes)))
                (invitation_message pf e botAddr owner (contacts ! i)))
     \<and> (\<not> truthy_str (in_inReplyTo message)
          \<and> in_subject message = Some subject \<and> isInvitationSubject subject
          \<and> in_text message = Some text \<and> contacts = contactMatches text
          \<and> botAddr = in_to message \<and> owner = in_from message
        \<longrightarrow> (\<exists>r h. handleOwnerEmail pf e message t
                 = snd (allSettled_invitations pf e botAddr owner contacts t)
                   @ Send (status_reply message
                             (resultsReport contacts
                                (fst (allSettled_invitations pf e botAddr owner contacts t)))) r
                   # h))"
proof -
  from allSettled_invitations_trace[of contacts pf e botAddr owner t] obtain outcomes where
    o: "length outcomes = length contacts"
      "snd (allSettled_invitations pf e botAddr owner contacts t)
         = t @ map (\<lambda>(c, r). Send (invitation_message pf e botAddr owner c) r) (zip contacts outcomes)"
      "fst (allSettled_invitations pf e botAddr owner contacts t)
         = map (\<lambda>r. case r of None \<Rightarrow> Fulfilled | Some err \<Rightarrow> Rejected err) outcomes"
      "\<forall>i < length contacts.
          outcomes ! i
            = transport pf
                (t @ map (\<lambda>(c, r). Send (invitation_message pf e botAddr owner c) r)
                       (zip (take i contacts) (take i outcomes)))
                (invitation_message pf e botAddr owner (contacts ! i))"
    by blast
  have rep: "resultsReport contacts (fst (allSettled_invitations pf e botAddr owner contacts t))
         = concat (map (\<lambda>(c, r). c @ '': ''
                         @ (case r of None \<Rightarrow> ''success'' | Some err \<Rightarrow> error_toString err)
                         @ [CHR 10])
                     (zip contacts outcomes))"
    using resultsReport_outcomes[OF o(1)] o(3) by simp
  have handler: "\<exists>r h. handleOwnerEmail pf e message t
                 = snd (allSettled_invitations pf e botAddr owner contacts t)
                   @ Send (status_reply message
                             (resultsReport contacts
                                (fst (allSettled_invitations pf e botAddr owner contacts t)))) r
                   # h"
    if g: "\<not> truthy_str (in_inReplyTo message)" "in_subject message = Some subject"
      "isInvitationSubject subject" "in_text message = Some text" "contacts = contactMatches text"
      "botAddr = in_to message" "owner = in_from message"
  proof -
    obtain rs t1 where a: "allSettled_invitations pf e botAddr owner contacts t = (rs, t1)"
      by (cases "allSettled_invitations pf e botAddr owner contacts t")
    let ?m = "status_reply message (resultsReport contacts rs)"
    have "\<exists>h. handleOwnerEmail pf e message t = t1 @ Send ?m (transport pf t1 ?m) # h"
      using g a
      by (auto simp: handleOwnerEmail_def Let_def send_result reply_def console_error_def
          split: option.splits)
    with a show ?thesis by auto
  qed
  from o rep handler show ?thesis by blast
qed

theorem invitation_fan_out_witness:
  "fst (allSettled_invitations (sample_platform (rejects_to ''c2@example.net'')) sample_env
          ''vault@example.org'' ''owner@example.org''
          [''c1@example.net'', ''c2@example.net'', ''c3@example.net''] [])
     = [Fulfilled, Rejected sample_error, Fulfilled]
   \<and> length (snd (allSettled_invitations (sample_platform (rejects_to ''c2@example.net'')) sample_env
          ''vault@example.org'' ''owner@example.org''
          [''c1@example.net'', ''c2@example.net'', ''c3@example.net''] [])) = 3"
proof -
  let ?pf = "sample_platform (rejects_to ''c2@example.net'')"
  let ?cs = "[''c1@example.net'', ''c2@example.net'', ''c3@example.net'']"
  have tr: "\<And>t c. transport ?pf t (invitation_message ?pf sample_env ''vault@example.org''
                                       ''owner@example.org'' c)
                   = (if c = ''c2@example.net'' then Some sample_error else None)"
    by (simp add: sample_platform_def rejects_to_def em_to_invitation)
  from invitation_fan_out[of ?cs ?pf sample_env "''vault@example.org''" "''owner@example.org''" "[]"]
  obtain outcomes where
    len: "length outcomes = length ?cs"
    and tra: "snd (allSettled_invitations ?pf sample_env ''vault@example.org'' ''owner@example.org'' ?cs [])
         = [] @ map (\<lambda>(c, r). Send (invitation_message ?pf sample_env ''vault@example.org''
                                       ''owner@example.org'' c) r) (zip ?cs outcomes)"
    and res: "fst (allSettled_invitations ?pf sample_env ''vault@example.org'' ''owner@example.org'' ?cs [])
         = map (\<lambda>r. case r of None \<Rightarrow> Fulfilled | Some err \<Rightarrow> Rejected err) outcomes"
    and each: "\<forall>i < length ?cs.
          outcomes ! i
            = transport ?pf
                ([] @ map (\<lambda>(c, r). Send (invitation_message ?pf sample_env ''vault@example.org''
                                              ''owner@example.org'' c) r)
                       (zip (take i ?cs) (take i outcomes)))
                (invitation_message ?pf sample_env ''vault@example.org'' ''owner@example.org'' (?cs ! i))"
    by blast
  from each have "outcomes ! 0 = None" "outcomes ! 1 = Some sample_error" "outcomes ! 2 = None"
    by (simp_all add: tr)
  moreover from len obtain a b c where "outcomes = [a, b, c]"
    by (cases outcomes; simp) (metis length_0_conv length_Suc_conv)
  ultimately have "outcomes = [None, Some sample_error, None]" by simp
  with tra res show ?thesis by simp
qed

end
